theory Spec2Isabelle
  imports Complex_Main "HOL-Library.Log_Nat"
begin

section \<open>Values shared by the handlers\<close>

text \<open>
  A JavaScript error object, as far as the handlers look at it: \<open>error.name\<close> (read by
  \<open>verifyToken\<close>), \<open>error.code\<close> (read by \<open>retryOperation\<close>) and \<open>error.message\<close>.
\<close>

record js_error =
  e_name :: string
  e_code :: string
  e_message :: string

text \<open>What \<open>await p\<close> does with a promise: it yields the value or throws the rejection.\<close>

datatype 'a settled = Resolved 'a | Rejected js_error

text \<open>
  How an async function ends. \<open>throw lastError\<close> can throw \<open>undefined\<close> (the variable is
  declared without a value), so the thrown value is optional.
\<close>

datatype 'a completion = Return 'a | Throw "js_error option"

text \<open>
  The totals of the summaries are sums that MySQL computes over the \<open>value\<close> column;
  they reach the response through \<open>parseFloat(total) || 0\<close>, which reads \<open>NULL\<close> (the sum
  over no row) as 0: \<open>parseFloat(null)\<close> is \<open>NaN\<close>, which is falsy. A total stands for
  the decimal that the response prints.
\<close>

definition parseFloat_or_0 :: "real option \<Rightarrow> real" where
  "parseFloat_or_0 x = (case x of None \<Rightarrow> 0 | Some v \<Rightarrow> v)"

text \<open>A value of a JSON request body, as far as \<open>typeof\<close> tells its kinds apart.\<close>

datatype jsvalue = Undefined | Null | Bool bool | Num real | Str string

text \<open>
  \<open>parseInt(q) || d\<close> on a query parameter: the parameter is given as what \<open>parseInt\<close>
  returns for it (\<open>None\<close> is \<open>NaN\<close>, for an absent or non-numeric parameter); \<open>NaN\<close>
  and 0 are falsy and give the default.
\<close>

definition parseInt_or :: "int option \<Rightarrow> int \<Rightarrow> int" where
  "parseInt_or q d = (case q of None \<Rightarrow> d | Some n \<Rightarrow> if n = 0 then d else n)"

section \<open>Calendar dates\<close>

text \<open>
  The \<open>date\<close> column and the \<open>YYYY-MM-DD\<close> texts of the requests are calendar dates; the
  text of a date is its rendering, so a date stands for its text too. MySQL and the
  comparison of two \<open>Date\<close> objects order them chronologically. The server's local time
  is taken to be UTC, so that \<open>toISOString()\<close> gives back the local calendar date.
\<close>

record date =
  year :: int
  month :: nat
  day :: nat

definition date_le :: "date \<Rightarrow> date \<Rightarrow> bool" where
  "date_le a b =
     (year a < year b \<or>
      (year a = year b \<and> (month a < month b \<or> (month a = month b \<and> day a \<le> day b))))"

definition date_less :: "date \<Rightarrow> date \<Rightarrow> bool" where
  "date_less a b = (date_le a b \<and> a \<noteq> b)"

definition leap_year :: "int \<Rightarrow> bool" where
  "leap_year y = (y mod 4 = 0 \<and> (y mod 100 \<noteq> 0 \<or> y mod 400 = 0))"

definition days_in_month :: "int \<Rightarrow> nat \<Rightarrow> nat" where
  "days_in_month y m =
     (if m = 2 then (if leap_year y then 29 else 28)
      else if m = 4 \<or> m = 6 \<or> m = 9 \<or> m = 11 then 30 else 31)"


text \<open>\<open>d.setDate(d.getDate() + 1)\<close>: the next calendar day.\<close>

definition next_day :: "date \<Rightarrow> date" where
  "next_day d =
     (if day d < days_in_month (year d) (month d) then d\<lparr>day := day d + 1\<rparr>
      else if month d < 12 then d\<lparr>month := month d + 1, day := 1\<rparr>
      else d\<lparr>year := year d + 1, month := 1, day := 1\<rparr>)"

text \<open>
  \<open>new Date(year, monthIndex, 1)\<close> with a month index (from 0) that may lie outside
  0..11: the constructor carries the excess into the year.
\<close>

definition first_of_month :: "int \<Rightarrow> int \<Rightarrow> date" where
  "first_of_month y monthIndex =
     \<lparr>year = y + monthIndex div 12, month = nat (monthIndex mod 12) + 1, day = 1\<rparr>"

text \<open>\<open>d.getMonth()\<close>: the month index, from 0.\<close>

definition getMonth :: "date \<Rightarrow> int" where
  "getMonth d = int (month d) - 1"




section \<open>The store\<close>

text \<open>
  Modelled from the spec: the declarations of the tables (the schema of \<open>users\<close>,
  \<open>infodata\<close> and \<open>categories\<close>) are not among the repository's files. The columns are
  those that the statements of the handlers name, with the types of the specification's
  data model: ids are numbers, \<open>value\<close> is a number, \<open>date\<close> is a calendar date, and
  \<open>balance\<close>, \<open>target\<close> and \<open>refresh_token\<close> may be \<open>NULL\<close>.

  The three tables, with the columns the handlers below read or write. The \<open>notes\<close>
  column of \<open>infodata\<close> and the profile columns of \<open>users\<close> hold free text that none of
  these statements reads; they are left out. Rows are kept in table order. String
  comparison in a \<open>WHERE\<close> clause is equality of the strings.
\<close>

record infodata_row =
  i_id :: nat
  i_user_id :: nat
  i_title :: string
  i_value :: real
  i_date :: date
  i_section :: string
  i_target :: "real option"
  i_payment_mode :: "string option"

record category_row =
  c_id :: nat
  c_user_id :: "nat option"
  c_label :: string
  c_iconName :: "string option"
  c_iconColor :: "string option"
  c_iconLibrary :: "string option"
  c_target :: "real option"

record user_row =
  u_id :: nat
  u_email :: string
  u_password :: string
  u_refresh_token :: "string option"
  u_balance :: "real option"

record database =
  users :: "user_row list"
  infodata :: "infodata_row list"
  categories :: "category_row list"

text \<open>
  A pooled connection: the committed store, and the store as the statements of the
  connection's transaction see and change it. \<open>rollback\<close> drops the uncommitted changes,
  \<open>commit\<close> makes them the store; a released connection leaves the committed store
  behind.
\<close>

record connection =
  committed :: database
  working :: database

definition getConnection :: "database \<Rightarrow> connection" where
  "getConnection db = \<lparr>committed = db, working = db\<rparr>"

definition beginTransaction :: "connection \<Rightarrow> connection" where
  "beginTransaction c = c\<lparr>working := committed c\<rparr>"

definition commit :: "connection \<Rightarrow> connection" where
  "commit c = c\<lparr>committed := working c\<rparr>"

definition rollback :: "connection \<Rightarrow> connection" where
  "rollback c = c\<lparr>working := committed c\<rparr>"

definition release :: "connection \<Rightarrow> database" where
  "release c = committed c"

text \<open>
  Every awaited call on the store can reject. A handler takes \<open>fault\<close>, which says for
  each of its awaited calls, numbered from 0 in the order of the source, whether that
  call rejects; the rejection lands in the handler's \<open>catch\<close>. \<open>rollback\<close> and
  \<open>release\<close> themselves are taken not to fail.
\<close>

type_synonym faults = "nat \<Rightarrow> bool"

definition no_fault :: faults where
  "no_fault = (\<lambda>k. False)"

text \<open>The JSON bodies of the responses. The \<open>details\<close> field of an error body is left out.\<close>

datatype body =
    Error string
  | Message string
  | CategoryDeleted string nat
  | NewBalance real
  | Token string
  | LoggedIn string string nat
  | Summary real nat
  | Monthly "(string \<times> real) list"
  | Daily "(date \<times> real) list"
  | Items "(infodata_row \<times> category_row option) list"

record response =
  status :: nat
  body :: body

definition respond :: "nat \<Rightarrow> body \<Rightarrow> response" where
  "respond s b = \<lparr>status = s, body = b\<rparr>"

section \<open>JavaScript numbers\<close>

text \<open>
  A JavaScript number is an IEEE 754 double: a real number of the form \<open>m * 2 ^ e\<close> with
  \<open>\<bar>m\<bar> < 2 ^ 53\<close> and \<open>- 1074 \<le> e\<close> and magnitude below \<open>2 ^ 1024\<close>, or one of
  \<open>Infinity\<close>, \<open>-Infinity\<close> and \<open>NaN\<close>. Every result of reading a decimal text
  (\<open>JSON.parse\<close>, \<open>parseFloat\<close>) and of \<open>+\<close> and \<open>-\<close> is the exact result rounded to the
  nearest double, a tie going to the even significand. The sign of zero is not kept.
\<close>

definition pow2 :: "int \<Rightarrow> real" where
  "pow2 e = (if 0 \<le> e then 2 ^ nat e else 1 / 2 ^ nat (- e))"

text \<open>The exponent \<open>k\<close> with \<open>2 ^ k \<le> \<bar>x\<bar> < 2 ^ (k + 1)\<close>, for \<open>x \<noteq> 0\<close>.\<close>

definition binade :: "real \<Rightarrow> int" where
  "binade x =
     (if 1 \<le> \<bar>x\<bar> then bitlen \<lfloor>\<bar>x\<bar>\<rfloor> - 1 else - bitlen (\<lceil>1 / \<bar>x\<bar>\<rceil> - 1))"

definition round_half_even :: "real \<Rightarrow> int" where
  "round_half_even x =
     (let f = \<lfloor>x\<rfloor>; d = x - of_int f
      in if d < 1 / 2 then f else if 1 / 2 < d then f + 1 else if even f then f else f + 1)"

text \<open>
  Rounding to 53 significant bits: the spacing of the doubles around \<open>x\<close> is \<open>2 ^ e\<close>
  with \<open>e = binade x - 52\<close>, and never finer than \<open>2 ^ - 1074\<close>.
\<close>

definition round_double :: "real \<Rightarrow> real" where
  "round_double x =
     (if x = 0 then 0
      else let e = max (binade x - 52) (- 1074)
           in of_int (round_half_even (x / pow2 e)) * pow2 e)"

text \<open>\<open>2 ^ 1024\<close>, written out: a rounded magnitude that reaches it is an infinity.\<close>

definition double_limit :: real where
  "double_limit = 179769313486231590772930519078902473361797697894230657273430081157732675805500963132708477322407536021120113879871393357658789768814416622492847430639474124377767893424865485276302219601246094119453082952085005768838150682342462881473913110540827237163350510684586298239947245938479716304835356329624224137216"

datatype js_number = Finite real | PlusInfinity | MinusInfinity | NaN

definition to_double :: "real \<Rightarrow> js_number" where
  "to_double x =
     (let r = round_double x
      in if double_limit \<le> r then PlusInfinity
         else if r \<le> - double_limit then MinusInfinity
         else Finite r)"

fun js_add :: "js_number \<Rightarrow> js_number \<Rightarrow> js_number" where
  "js_add (Finite x) (Finite y) = to_double (x + y)"
| "js_add NaN b = NaN"
| "js_add a NaN = NaN"
| "js_add PlusInfinity MinusInfinity = NaN"
| "js_add MinusInfinity PlusInfinity = NaN"
| "js_add PlusInfinity b = PlusInfinity"
| "js_add MinusInfinity b = MinusInfinity"
| "js_add (Finite x) b = b"

fun js_negate :: "js_number \<Rightarrow> js_number" where
  "js_negate (Finite x) = Finite (- x)"
| "js_negate PlusInfinity = MinusInfinity"
| "js_negate MinusInfinity = PlusInfinity"
| "js_negate NaN = NaN"

definition js_sub :: "js_number \<Rightarrow> js_number \<Rightarrow> js_number" where
  "js_sub a b = js_add a (js_negate b)"

text \<open>\<open>x <= 0\<close>; a comparison with \<open>NaN\<close> is false.\<close>

fun js_le_0 :: "js_number \<Rightarrow> bool" where
  "js_le_0 (Finite x) = (x \<le> 0)"
| "js_le_0 MinusInfinity = True"
| "js_le_0 PlusInfinity = False"
| "js_le_0 NaN = False"

text \<open>
  \<open>parseFloat(c) || 0\<close> on a numeric column that may be \<open>NULL\<close>: the column's decimal as
  a double, and 0 for \<open>NULL\<close> (\<open>parseFloat(null)\<close> is \<open>NaN\<close>, which is falsy, as 0 is).
\<close>

definition parseFloat_column_or_0 :: "real option \<Rightarrow> js_number" where
  "parseFloat_column_or_0 c = (case c of None \<Rightarrow> Finite 0 | Some v \<Rightarrow> to_double v)"

section \<open>db.js: retryOperation\<close>

text \<open>
  \<^verbatim>\<open>
  async function retryOperation(operation, maxRetries = 3) {
    let lastError;
    for (let i = 0; i < maxRetries; i++) {
      try {
        return await operation();
      } catch (error) {
        lastError = error;
        if (error.code === 'ER_USER_LIMIT_REACHED') {
          await new Promise(resolve => setTimeout(resolve, 1000 * (i + 1)));
          continue;
        }
        throw error;
      }
    }
    throw lastError;
  }
  \<close>
  The operation is called once per iteration, so its behaviour is the sequence of the
  outcomes of its calls: \<open>operation i\<close> is how call number \<open>i\<close> (from 0) settles. The
  effects of a run are recorded in order: each call of the operation and each timer wait
  (in milliseconds).
\<close>

datatype event = Call nat | Sleep nat

function retry_loop ::
  "(nat \<Rightarrow> 'a settled) \<Rightarrow> nat \<Rightarrow> nat \<Rightarrow> js_error option \<Rightarrow> event list
     \<Rightarrow> 'a completion \<times> event list"
where
  "retry_loop operation maxRetries i lastError trace =
     (if i < maxRetries then
        (case operation i of
           Resolved v \<Rightarrow> (Return v, trace @ [Call i])
         | Rejected error \<Rightarrow>
             if e_code error = ''ER_USER_LIMIT_REACHED''
             then retry_loop operation maxRetries (i + 1) (Some error)
                    (trace @ [Call i, Sleep (1000 * (i + 1))])
             else (Throw (Some error), trace @ [Call i]))
      else (Throw lastError, trace))"
  by pat_completeness auto
termination
  by (relation "measure (\<lambda>(operation, maxRetries, i, lastError, trace). maxRetries - i)") auto

definition retryOperation :: "(nat \<Rightarrow> 'a settled) \<Rightarrow> nat \<Rightarrow> 'a completion \<times> event list" where
  "retryOperation operation maxRetries = retry_loop operation maxRetries 0 None []"

text \<open>A call that rejects with the code the loop retries on, and the rejection of a call.\<close>

definition transient :: "'a settled \<Rightarrow> bool" where
  "transient s = (case s of Resolved v \<Rightarrow> False
                  | Rejected error \<Rightarrow> e_code error = ''ER_USER_LIMIT_REACHED'')"

definition rejection :: "'a settled \<Rightarrow> js_error option" where
  "rejection s = (case s of Resolved v \<Rightarrow> None | Rejected error \<Rightarrow> Some error)"

text \<open>The calls and waits of \<open>k\<close> failed attempts in a row, starting with attempt \<open>i\<close>.\<close>

definition backoff_trace :: "nat \<Rightarrow> nat \<Rightarrow> event list" where
  "backoff_trace i k = concat (map (\<lambda>j. [Call j, Sleep (1000 * (j + 1))]) [i..<i + k])"

text \<open>Two errors of the MySQL driver, for the examples.\<close>

definition limit_error :: js_error where
  "limit_error = \<lparr>e_name = ''Error'', e_code = ''ER_USER_LIMIT_REACHED'',
                   e_message = ''max_user_connections''\<rparr>"

definition parse_error :: js_error where
  "parse_error = \<lparr>e_name = ''Error'', e_code = ''ER_PARSE_ERROR'',
                   e_message = ''You have an error in your SQL syntax''\<rparr>"

section \<open>middleware/authMiddleware.js: verifyToken\<close>

text \<open>\<open>s.split(" ")\<close>: the pieces of \<open>s\<close> between the separators; never the empty list.\<close>

fun split_on :: "char \<Rightarrow> string \<Rightarrow> string list" where
  "split_on sep [] = [[]]"
| "split_on sep (x # xs) =
     (if x = sep then [] # split_on sep xs
      else (case split_on sep xs of [] \<Rightarrow> [[x]] | w # ws \<Rightarrow> (x # w) # ws))"

text \<open>\<open>xs[n]\<close> of JavaScript: \<open>undefined\<close> past the end.\<close>

definition nth_opt :: "'a list \<Rightarrow> nat \<Rightarrow> 'a option" where
  "nth_opt xs n = (if n < length xs then Some (xs ! n) else None)"

text \<open>
  \<^verbatim>\<open>
  function verifyToken(req, res, next) {
    try {
      const bearerHeader = req.headers.authorization;
      if (!bearerHeader) {
        return res.status(401).json({ error: "No authorization header" });
      }
      const token = bearerHeader.split(" ")[1];
      if (!token) {
        return res.status(401).json({ error: "No token provided" });
      }
      const decoded = jwt.verify(token, SECRET_KEY);
      req.user = decoded;
      next();
    } catch (error) {
      if (error.name === 'TokenExpiredError') {
        return res.status(403).json({ error: "Token expired", details: error.message });
      }
      return res.status(403).json({ error: "Invalid token", details: error.message });
    }
  }
  \<close>
  \<open>jwt.verify(_, SECRET_KEY)\<close> belongs to the token library and is a parameter: it
  returns the decoded payload or throws. The middleware answers itself or hands the
  request on with \<open>req.user\<close> set.
\<close>

datatype 'c middleware_result = Respond response | Next 'c

definition verifyToken :: "(string \<Rightarrow> js_error + 'c) \<Rightarrow> string option \<Rightarrow> 'c middleware_result" where
  "verifyToken jwt_verify authorization =
     (case authorization of
        None \<Rightarrow> Respond (respond 401 (Error ''No authorization header''))
      | Some bearerHeader \<Rightarrow>
          if bearerHeader = [] then Respond (respond 401 (Error ''No authorization header''))
          else (case nth_opt (split_on CHR '' '' bearerHeader) 1 of
                  None \<Rightarrow> Respond (respond 401 (Error ''No token provided''))
                | Some token \<Rightarrow>
                    if token = [] then Respond (respond 401 (Error ''No token provided''))
                    else (case jwt_verify token of
                            Inr decoded \<Rightarrow> Next decoded
                          | Inl error \<Rightarrow>
                              if e_name error = ''TokenExpiredError''
                              then Respond (respond 403 (Error ''Token expired''))
                              else Respond (respond 403 (Error ''Invalid token'')))))"

text \<open>Two errors of the token library, and a verifier, for the examples.\<close>

definition expired_error :: js_error where
  "expired_error = \<lparr>e_name = ''TokenExpiredError'', e_code = [], e_message = ''jwt expired''\<rparr>"

definition malformed_error :: js_error where
  "malformed_error = \<lparr>e_name = ''JsonWebTokenError'', e_code = [], e_message = ''jwt malformed''\<rparr>"

definition example_verify :: "string \<Rightarrow> js_error + nat" where
  "example_verify t =
     (if t = ''good'' then Inr 1 else if t = ''old'' then Inl expired_error
      else Inl malformed_error)"

section \<open>routes/authRoutes.js: login and refresh-token\<close>

text \<open>
  \<^verbatim>\<open>
  router.post("/refresh-token", async (req, res) => {
    const { refreshToken } = req.body;
    if (!refreshToken) return res.status(401).json({ error: "Refresh token required" });
    try {
      const decoded = jwt.verify(refreshToken, REFRESH_KEY);
      const [users] = await pool.promise().query(
        "SELECT * FROM users WHERE id = ? AND refresh_token = ?", [decoded.userId, refreshToken]
      );
      if (users.length === 0) return res.status(401).json({ error: "Invalid refresh token" });
      const user = users[0];
      const newToken = jwt.sign({ userId: user.id, email: user.email }, SECRET_KEY, { expiresIn: '365d' });
      res.json({ token: newToken });
    } catch (error) {
      res.status(401).json({ error: "Invalid refresh token", details: error.message });
    }
  });
  \<close>
  \<open>jwt.verify(_, REFRESH_KEY)\<close> (giving \<open>decoded.userId\<close>) and
  \<open>jwt.sign({userId, email}, SECRET_KEY, _)\<close> are parameters. Awaited call 0 is the
  \<open>SELECT\<close>. The handler returns the store it leaves behind and its response.
\<close>

definition post_refresh_token ::
  "(string \<Rightarrow> js_error + nat) \<Rightarrow> (nat \<Rightarrow> string \<Rightarrow> string) \<Rightarrow> faults \<Rightarrow> database
     \<Rightarrow> string option \<Rightarrow> database \<times> response"
where
  "post_refresh_token jwt_verify jwt_sign fault db refreshToken =
     (case refreshToken of
        None \<Rightarrow> (db, respond 401 (Error ''Refresh token required''))
      | Some presented \<Rightarrow>
          if presented = [] then (db, respond 401 (Error ''Refresh token required''))
          else (case jwt_verify presented of
                  Inl error \<Rightarrow> (db, respond 401 (Error ''Invalid refresh token''))
                | Inr userId \<Rightarrow>
                    if fault 0 then (db, respond 401 (Error ''Invalid refresh token''))
                    else (case filter (\<lambda>u. u_id u = userId \<and> u_refresh_token u = Some presented)
                                 (users db) of
                            [] \<Rightarrow> (db, respond 401 (Error ''Invalid refresh token''))
                          | user # rest \<Rightarrow>
                              (db, respond 200 (Token (jwt_sign (u_id user) (u_email user)))))))"

text \<open>
  The condition under which the handler issues a token: the presented token is there,
  decodes to a user id, the lookup does not fail, and a row of that user stores exactly
  the presented token.
\<close>

definition refresh_accepted ::
  "(string \<Rightarrow> js_error + nat) \<Rightarrow> faults \<Rightarrow> database \<Rightarrow> string option \<Rightarrow> bool"
where
  "refresh_accepted jwt_verify fault db refreshToken =
     (case refreshToken of
        None \<Rightarrow> False
      | Some presented \<Rightarrow>
          presented \<noteq> [] \<and>
          (case jwt_verify presented of
             Inl error \<Rightarrow> False
           | Inr userId \<Rightarrow>
               \<not> fault 0 \<and>
               (\<exists>u \<in> set (users db). u_id u = userId \<and> u_refresh_token u = Some presented)))"

text \<open>\<open>s.trim()\<close>, for the white space of ASCII.\<close>

definition js_space :: "char \<Rightarrow> bool" where
  "js_space c = (c = CHR '' '' \<or> c = CHR 0x09 \<or> c = CHR 0x0A \<or> c = CHR 0x0B
                 \<or> c = CHR 0x0C \<or> c = CHR 0x0D)"

definition trim :: "string \<Rightarrow> string" where
  "trim s = rev (dropWhile js_space (rev (dropWhile js_space s)))"

text \<open>
  \<^verbatim>\<open>
  router.post("/login", async (req, res) => {
    const { email, password } = req.body;
    if (!email || !password) return res.status(400).json({ error: "Email and password are required" });
    try {
      const [results] = await pool.promise().query("SELECT * FROM users WHERE email = ?", [email]);
      if (results.length === 0) return res.status(401).json({ error: "Invalid email or password" });
      const user = results[0];
      const isMatch = await bcrypt.compare(password.trim(), user.password);
      if (!isMatch) return res.status(401).json({ error: "Invalid email or password" });
      const token = jwt.sign({ userId: user.id, email: user.email }, SECRET_KEY, { expiresIn: '365d' });
      const refreshToken = jwt.sign({ userId: user.id }, REFRESH_KEY, { expiresIn: '730d' });
      await pool.promise().query("UPDATE users SET refresh_token = ? WHERE id = ?", [refreshToken, user.id]);
      const safeUser = { id: user.id, ... };
      res.json({ message: "Login successful", token, refreshToken, user: safeUser });
    } catch (error) {
      res.status(500).json({ error: "Error during authentication", details: error.message });
    }
  });
  \<close>
  \<open>bcrypt.compare\<close> and the two \<open>jwt.sign\<close> calls are parameters. Awaited calls: 0 the
  \<open>SELECT\<close>, 1 \<open>bcrypt.compare\<close>, 2 the \<open>UPDATE\<close>.
\<close>

definition update_refresh_token :: "string \<Rightarrow> nat \<Rightarrow> database \<Rightarrow> database" where
  "update_refresh_token refreshToken userId db =
     db\<lparr>users := map (\<lambda>u. if u_id u = userId then u\<lparr>u_refresh_token := Some refreshToken\<rparr> else u)
                     (users db)\<rparr>"

definition post_login ::
  "(string \<Rightarrow> string \<Rightarrow> bool) \<Rightarrow> (nat \<Rightarrow> string \<Rightarrow> string) \<Rightarrow> (nat \<Rightarrow> string) \<Rightarrow> faults
     \<Rightarrow> database \<Rightarrow> string option \<Rightarrow> string option \<Rightarrow> database \<times> response"
where
  "post_login bcrypt_compare jwt_sign jwt_sign_refresh fault db email password =
     (case (email, password) of
        (Some em, Some pw) \<Rightarrow>
          if em = [] \<or> pw = [] then (db, respond 400 (Error ''Email and password are required''))
          else if fault 0 then (db, respond 500 (Error ''Error during authentication''))
          else (case filter (\<lambda>u. u_email u = em) (users db) of
                  [] \<Rightarrow> (db, respond 401 (Error ''Invalid email or password''))
                | user # rest \<Rightarrow>
                    if fault 1 then (db, respond 500 (Error ''Error during authentication''))
                    else if \<not> bcrypt_compare (trim pw) (u_password user)
                    then (db, respond 401 (Error ''Invalid email or password''))
                    else
                      let token = jwt_sign (u_id user) (u_email user);
                          refreshToken = jwt_sign_refresh (u_id user)
                      in if fault 2 then (db, respond 500 (Error ''Error during authentication''))
                         else (update_refresh_token refreshToken (u_id user) db,
                               respond 200 (LoggedIn token refreshToken (u_id user))))
      | _ \<Rightarrow> (db, respond 400 (Error ''Email and password are required'')))"

section \<open>routes/expenseRoutes.js: listing and summaries\<close>

text \<open>
  The \<open>WHERE\<close> clause that \<open>GET /items\<close> and \<open>GET /items/summary\<close> build: the user's
  rows, narrowed by \<open>section = ?\<close> when \<open>category\<close> is truthy and not \<open>'All'\<close>, by
  \<open>date >= ?\<close> when \<open>fromDate\<close> is truthy and by \<open>date <= ?\<close> when \<open>toDate\<close> is.
\<close>

definition matches_filters ::
  "nat \<Rightarrow> string option \<Rightarrow> date option \<Rightarrow> date option \<Rightarrow> infodata_row \<Rightarrow> bool"
where
  "matches_filters userId category fromDate toDate r =
     (i_user_id r = userId
      \<and> (case category of
            None \<Rightarrow> True
          | Some c \<Rightarrow> if c \<noteq> [] \<and> c \<noteq> ''All'' then i_section r = c else True)
      \<and> (case fromDate of None \<Rightarrow> True | Some d \<Rightarrow> date_le d (i_date r))
      \<and> (case toDate of None \<Rightarrow> True | Some d \<Rightarrow> date_le (i_date r) d))"

text \<open>
  \<open>LEFT JOIN categories c ON i.section = c.label AND c.user_id = i.user_id\<close>: a row
  of \<open>infodata\<close> with each matching category, or once with none.
\<close>

definition left_join_categories ::
  "category_row list \<Rightarrow> infodata_row \<Rightarrow> (infodata_row \<times> category_row option) list"
where
  "left_join_categories cats r =
     (case filter (\<lambda>c. c_label c = i_section r \<and> c_user_id c = Some (i_user_id r)) cats of
        [] \<Rightarrow> [(r, None)]
      | c # cs \<Rightarrow> map (\<lambda>c'. (r, Some c')) (c # cs))"

text \<open>\<open>ORDER BY date DESC, id DESC\<close>, by insertion.\<close>

definition listed_before :: "infodata_row \<Rightarrow> infodata_row \<Rightarrow> bool" where
  "listed_before a b =
     (date_less (i_date b) (i_date a) \<or> (i_date a = i_date b \<and> i_id b \<le> i_id a))"

fun insert_listed ::
  "infodata_row \<times> 'c \<Rightarrow> (infodata_row \<times> 'c) list \<Rightarrow> (infodata_row \<times> 'c) list"
where
  "insert_listed x [] = [x]"
| "insert_listed x (y # ys) =
     (if listed_before (fst x) (fst y) then x # y # ys else y # insert_listed x ys)"

definition order_by_date_id_desc :: "(infodata_row \<times> 'c) list \<Rightarrow> (infodata_row \<times> 'c) list" where
  "order_by_date_id_desc rows = foldr insert_listed rows []"

text \<open>
  \<open>LIMIT ? OFFSET ?\<close> with the two numbers written into the statement. MySQL accepts
  only non-negative integer constants there; with a negative one the statement is a
  syntax error and the query fails (\<open>None\<close>).
\<close>

definition sql_limit_offset :: "int \<Rightarrow> int \<Rightarrow> 'a list \<Rightarrow> 'a list option" where
  "sql_limit_offset limit offset rows =
     (if limit < 0 \<or> offset < 0 then None
      else Some (take (nat limit) (drop (nat offset) rows)))"

text \<open>
  \<^verbatim>\<open>
  router.get("/", verifyToken, (req, res) => {
      const userId = req.user.userId;
      if (!userId) {
        return res.status(401).json({ error: "User ID not found in token payload." });
      }
      const page = parseInt(req.query._page ) || 1; // Default to page 1
      const limit = parseInt(req.query._limit) || 10; // Default to 10 items per page
      const offset = (page - 1) * limit;
      ...
      query += " ORDER BY date DESC, id DESC LIMIT ? OFFSET ?";
      queryParams.push(limit, offset);
      pool.query(countQuery, countQueryParams, (err, countResults) => {
          if (err) {
              return res.status(500).json({ error: "Failed to fetch item count." });
          }
          const totalItems = (countResults )[0].total;
          pool.query(query, queryParams, (err, results) => {
              if (err) {
                  return res.status(500).json({ error: "Failed to fetch items." });
              }
              res.json(results);
          });
      });
  });
  \<close>
  Store calls: 0 the count query, 1 the listing query.
\<close>

definition get_items ::
  "faults \<Rightarrow> database \<Rightarrow> nat option \<Rightarrow> int option \<Rightarrow> int option \<Rightarrow> string option
     \<Rightarrow> date option \<Rightarrow> date option \<Rightarrow> response"
where
  "get_items fault db userId q_page q_limit category fromDate toDate =
     (case userId of
        None \<Rightarrow> respond 401 (Error ''User ID not found in token payload.'')
      | Some uid \<Rightarrow>
          if uid = 0 then respond 401 (Error ''User ID not found in token payload.'')
          else
            let page = parseInt_or q_page 1;
                limit = parseInt_or q_limit 10;
                offset = (page - 1) * limit
            in if fault 0 then respond 500 (Error ''Failed to fetch item count.'')
               else if fault 1 then respond 500 (Error ''Failed to fetch items.'')
               else (case sql_limit_offset limit offset
                            (order_by_date_id_desc
                               (concat (map (left_join_categories (categories db))
                                  (filter (matches_filters uid category fromDate toDate)
                                     (infodata db))))) of
                       None \<Rightarrow> respond 500 (Error ''Failed to fetch items.'')
                     | Some results \<Rightarrow> respond 200 (Items results)))"

text \<open>
  \<^verbatim>\<open>
  const getPeriodDates = (period) => {
      const endDate = new Date();
      let startDate = new Date();
      endDate.setHours(23, 59, 59, 999); // End of today
      switch (period) {
          case 'thisMonth':
              startDate = new Date(endDate.getFullYear(), endDate.getMonth(), 1); ...
          case 'last3Months':
              startDate = new Date(endDate.getFullYear(), endDate.getMonth() - 2, 1); ...
          case 'last6Months':
              startDate = new Date(endDate.getFullYear(), endDate.getMonth() - 5, 1); ...
          case 'last12Months':
              startDate = new Date(endDate.getFullYear() - 1, endDate.getMonth(), 1); ...
          default:
              break;
      }
      return {
          startDate: startDate.toISOString().split('T')[0],
          endDate: endDate.toISOString().split('T')[0]
      };
  };
  \<close>
  \<open>new Date()\<close> is the parameter \<open>today\<close>.
\<close>

definition getPeriodDates :: "date \<Rightarrow> string \<Rightarrow> date \<times> date" where
  "getPeriodDates today period =
     (let endDate = today;
          startDate =
            (if period = ''thisMonth'' then first_of_month (year endDate) (getMonth endDate)
             else if period = ''last3Months''
               then first_of_month (year endDate) (getMonth endDate - 2)
             else if period = ''last6Months''
               then first_of_month (year endDate) (getMonth endDate - 5)
             else if period = ''last12Months''
               then first_of_month (year endDate - 1) (getMonth endDate)
             else today)
      in (startDate, endDate))"

text \<open>\<open>SUM(e)\<close> over the selected rows: \<open>NULL\<close> when there is no row.\<close>

definition sql_sum :: "real list \<Rightarrow> real option" where
  "sql_sum xs = (if xs = [] then None else Some (sum_list xs))"

text \<open>\<open>CASE WHEN section != 'Income' THEN value ELSE 0 END\<close>.\<close>

definition expense_value :: "infodata_row \<Rightarrow> real" where
  "expense_value r = (if i_section r \<noteq> ''Income'' then i_value r else 0)"

text \<open>
  \<^verbatim>\<open>
  router.get("/summary", verifyToken, async (req, res) => {
      const userId = req.user.userId;
      if (!userId) { return res.status(401).json(...); }
      const category = req.query.category;
      let fromDate = req.query.fromDate;
      let toDate = req.query.toDate;
      const period = req.query.period;
      if (period) {
          const periodDates = getPeriodDates(period);
          fromDate = periodDates.startDate;
          toDate = periodDates.endDate;
      }
      let query = `
          SELECT
              SUM(CASE WHEN section != 'Income' THEN value ELSE 0 END) AS total_expenses,
              COUNT(id) AS total_count
          FROM infodata
          WHERE user_id = ?
      `;
      ... (the filters, as in the listing)
      let connection;
      try {
          connection = await pool.promise().getConnection();
          const [rows] = await connection.query(query, queryParams);
          const totalExpenses = parseFloat(rows[0].total_expenses) || 0;
          const totalCount = rows[0].total_count || 0;
          res.json({ totalExpenses, totalCount });
      } catch (err) {
          if (connection) await connection.rollback();
          res.status(500).json({ error: "Failed to fetch items summary.", details: err.message });
      } finally {
          if (connection) connection.release();
      }
  });
  \<close>
  Awaited calls: 0 \<open>getConnection\<close>, 1 the query.
\<close>

definition summary_rows ::
  "database \<Rightarrow> date \<Rightarrow> nat \<Rightarrow> string option \<Rightarrow> date option \<Rightarrow> date option \<Rightarrow> string option
     \<Rightarrow> infodata_row list"
where
  "summary_rows db today uid category fromDate toDate period =
     (let (fromDate', toDate') =
            (case period of
               None \<Rightarrow> (fromDate, toDate)
             | Some p \<Rightarrow>
                 if p = [] then (fromDate, toDate)
                 else (Some (fst (getPeriodDates today p)), Some (snd (getPeriodDates today p))))
      in filter (matches_filters uid category fromDate' toDate') (infodata db))"

definition get_summary ::
  "faults \<Rightarrow> database \<Rightarrow> date \<Rightarrow> nat option \<Rightarrow> string option \<Rightarrow> date option \<Rightarrow> date option
     \<Rightarrow> string option \<Rightarrow> response"
where
  "get_summary fault db today userId category fromDate toDate period =
     (case userId of
        None \<Rightarrow> respond 401 (Error ''User ID not found in token payload.'')
      | Some uid \<Rightarrow>
          if uid = 0 then respond 401 (Error ''User ID not found in token payload.'')
          else if fault 0 then respond 500 (Error ''Failed to fetch items summary.'')
          else if fault 1 then respond 500 (Error ''Failed to fetch items summary.'')
          else
            let rows = summary_rows db today uid category fromDate toDate period;
                totalExpenses = parseFloat_or_0 (sql_sum (map expense_value rows));
                totalCount = length rows
            in respond 200 (Summary totalExpenses totalCount))"

section \<open>routes/expenseRoutes.js: time-bucketed summaries\<close>



definition or_0 :: "real option \<Rightarrow> real" where
  "or_0 x = (case x of None \<Rightarrow> 0 | Some v \<Rightarrow> v)"




text \<open>
  \<^verbatim>\<open>
  router.get("/summary/daily", verifyToken, async (req, res) => {
      const userId = req.user.userId;
      const { startDate, endDate } = req.query; // Expect YYYY-MM-DD format
      if (!userId) { return res.status(401).json(...); }
      if (!startDate || !endDate) {
          return res.status(400).json({ error: "startDate and endDate are required for daily summary." });
      }
      if (!/^\d{4}-\d{2}-\d{2}$/.test(startDate) || !/^\d{4}-\d{2}-\d{2}$/.test(endDate)) {
          return res.status(400).json({ error: "Date format must be YYYY-MM-DD." });
      }
      const query = `
          SELECT
              DATE_FORMAT(date, '%Y-%m-%d') AS date,
              SUM(CASE WHEN section != 'Income' THEN value ELSE 0 END) AS total_expenses
          FROM infodata
          WHERE user_id = ? AND date BETWEEN ? AND ?
          GROUP BY date
          ORDER BY date ASC;
      `;
      const queryParams = [userId, startDate, endDate];
      let connection;
      try {
          connection = await pool.promise().getConnection();
          const [rows] = await connection.query(query, queryParams);
          const fetchedDataMap = new Map();
          rows.forEach((row) => {
              fetchedDataMap.set(row.date, parseFloat(row.total_expenses) || 0);
          });
          const dailySummaries = [];
          let currentDate = new Date(startDate);
          const endDt = new Date(endDate);
          while (currentDate <= endDt) {
              const formattedDate = currentDate.toISOString().split('T')[0];
              dailySummaries.push({
                  date: formattedDate,
                  total_expenses: fetchedDataMap.get(formattedDate) || 0
              });
              currentDate.setDate(currentDate.getDate() + 1); // Move to the next day
          }
          res.json(dailySummaries);
      } catch (err) {
          if (connection) await connection.rollback();
          res.status(500).json({ error: "Failed to fetch daily summary.", details: err.message });
      } finally {
          if (connection) connection.release();
      }
  });
  \<close>
  A date parameter of the query is absent (or empty), a text that the pattern rejects,
  or a text \<open>dddd-dd-dd\<close>, read as year, month and day. Awaited calls: 0
  \<open>getConnection\<close>, 1 the query. A comparison with \<open>Invalid Date\<close> is false, so the loop
  does not run when one of the two texts names no calendar day.
\<close>

datatype date_param = Missing | NotYMD | YMD date

definition date_ordinal :: "date \<Rightarrow> int" where
  "date_ordinal d = 372 * year d + 31 * int (min (month d) 12) + int (min (day d) 31)"

function daily_loop ::
  "(date \<rightharpoonup> real) \<Rightarrow> date \<Rightarrow> date \<Rightarrow> (date \<times> real) list \<Rightarrow> (date \<times> real) list"
where
  "daily_loop fetched currentDate endDt dailySummaries =
     (if date_le currentDate endDt
      then daily_loop fetched (next_day currentDate) endDt
             (dailySummaries @ [(currentDate, or_0 (fetched currentDate))])
      else dailySummaries)"
  by pat_completeness auto
termination
proof (relation "measure (\<lambda>(fetched, currentDate, endDt, dailySummaries).
                   nat (372 * year endDt + 404 - date_ordinal currentDate))")
  show "wf (measure (\<lambda>(fetched :: date \<rightharpoonup> real, currentDate, endDt, dailySummaries :: (date \<times> real) list).
                   nat (372 * year endDt + 404 - date_ordinal currentDate)))"
    by simp
next
  fix fetched :: "date \<rightharpoonup> real" and currentDate endDt :: date
    and dailySummaries :: "(date \<times> real) list"
  assume le: "date_le currentDate endDt"
  have dim: "days_in_month (year currentDate) (month currentDate) \<le> 31"
    by (simp add: days_in_month_def)
  have up: "date_ordinal currentDate < date_ordinal (next_day currentDate)"
    using dim by (auto simp: date_ordinal_def next_day_def min_def)
  have "year currentDate \<le> year endDt"
    using le by (auto simp: date_le_def)
  then have bound: "date_ordinal currentDate < 372 * year endDt + 404"
    by (simp add: date_ordinal_def min_def)
  show "((fetched, next_day currentDate, endDt,
          dailySummaries @ [(currentDate, or_0 (fetched currentDate))]),
         (fetched, currentDate, endDt, dailySummaries))
        \<in> measure (\<lambda>(fetched, currentDate, endDt, dailySummaries).
                   nat (372 * year endDt + 404 - date_ordinal currentDate))"
    using up bound by simp
qed



section \<open>routes/expenseRoutes.js: deleting a custom category with its transactions\<close>

text \<open>The three statements of the handler, on the store the transaction sees.\<close>

definition select_category_label :: "database \<Rightarrow> nat \<Rightarrow> nat \<Rightarrow> string list" where
  "select_category_label db categoryId userId =
     map c_label (filter (\<lambda>c. c_id c = categoryId \<and> c_user_id c = Some userId) (categories db))"

text \<open>A \<open>DELETE\<close> gives the number of rows it removed (\<open>affectedRows\<close>) and the new store.\<close>

definition delete_infodata_of_section :: "database \<Rightarrow> nat \<Rightarrow> string \<Rightarrow> nat \<times> database" where
  "delete_infodata_of_section db userId label =
     (length (filter (\<lambda>r. i_user_id r = userId \<and> i_section r = label) (infodata db)),
      db\<lparr>infodata := filter (\<lambda>r. \<not> (i_user_id r = userId \<and> i_section r = label)) (infodata db)\<rparr>)"

definition delete_category :: "database \<Rightarrow> nat \<Rightarrow> nat \<Rightarrow> nat \<times> database" where
  "delete_category db categoryId userId =
     (length (filter (\<lambda>c. c_id c = categoryId \<and> c_user_id c = Some userId) (categories db)),
      db\<lparr>categories := filter (\<lambda>c. \<not> (c_id c = categoryId \<and> c_user_id c = Some userId))
                          (categories db)\<rparr>)"

text \<open>
  The handler's last \<open>DELETE\<close> can find the category gone only if another connection
  removed it after the handler's \<open>SELECT\<close>. \<open>others\<close> is what other connections commit to
  the \<open>categories\<close> table in between (the identity when the request runs alone); their
  work is in the store and is seen by the statements that follow.
\<close>

definition others_commit :: "(category_row list \<Rightarrow> category_row list) \<Rightarrow> connection \<Rightarrow> connection" where
  "others_commit others c =
     \<lparr>committed = (committed c)\<lparr>categories := others (categories (committed c))\<rparr>,
      working = (working c)\<lparr>categories := others (categories (working c))\<rparr>\<rparr>"

text \<open>
  \<^verbatim>\<open>
  router.delete("/custom-categories/:id", verifyToken, async (req, res) => {
      const categoryId = req.params.id;
      const userId = req.user.userId;
      if (!userId) { return res.status(401).json({ error: "User ID not found in token payload." }); }
      if (!categoryId) { return res.status(400).json({ error: "Category ID is required." }); }
      let connection;
      try {
          connection = await pool.promise().getConnection();
          await connection.beginTransaction();
          const [categoryRows] = await connection.query(
              `SELECT label FROM categories WHERE id = ? AND user_id = ?`, [categoryId, userId]);
          if (categoryRows.length === 0) {
              await connection.rollback();
              return res.status(404).json({ error: "Custom category not found or not authorized for this user." });
          }
          const deletedCategoryLabel = categoryRows[0].label;
          const [deleteInfodataResult] = await connection.query(
              `DELETE FROM infodata WHERE user_id = ? AND section = ?`, [userId, deletedCategoryLabel]);
          const [deleteCategoryResult] = await connection.query(
              `DELETE FROM categories WHERE id = ? AND user_id = ?`, [categoryId, userId]);
          if (deleteCategoryResult.affectedRows === 0) {
              await connection.rollback();
              return res.status(404).json({ error: "Custom category not found or could not be deleted from categories table." });
          }
          await connection.commit();
          res.status(200).json({
              message: `Custom category "${deletedCategoryLabel}" and ${deleteInfodataResult.affectedRows} associated transactions deleted successfully.`,
              deletedTransactionsCount: deleteInfodataResult.affectedRows
          });
      } catch (err) {
          if (connection) await connection.rollback();
          res.status(500).json({ error: "Internal server error. Failed to delete custom category and associated transactions.", details: err.message });
      } finally {
          if (connection) connection.release();
      }
  });
  \<close>
  The route parameter is the id it denotes (a route parameter is never empty, so the
  400 branch is not reached). Awaited calls: 0 \<open>getConnection\<close>, 1 \<open>beginTransaction\<close>,
  2 the \<open>SELECT\<close>, 3 the \<open>DELETE\<close> on \<open>infodata\<close>, 4 the \<open>DELETE\<close> on \<open>categories\<close>,
  5 \<open>commit\<close>. The body of the success response is the label and
  \<open>deletedTransactionsCount\<close>.
\<close>

definition delete_category_failed :: response where
  "delete_category_failed =
     respond 500 (Error ''Internal server error. Failed to delete custom category and associated transactions.'')"

definition delete_custom_category ::
  "faults \<Rightarrow> (category_row list \<Rightarrow> category_row list) \<Rightarrow> database \<Rightarrow> nat option \<Rightarrow> nat
     \<Rightarrow> database \<times> response"
where
  "delete_custom_category fault others db userId categoryId =
     (case userId of
        None \<Rightarrow> (db, respond 401 (Error ''User ID not found in token payload.''))
      | Some uid \<Rightarrow>
          if uid = 0 then (db, respond 401 (Error ''User ID not found in token payload.''))
          else if fault 0 then (db, delete_category_failed)
          else
            let connection = getConnection db in
            if fault 1 then (release (rollback connection), delete_category_failed)
            else
              let connection = beginTransaction connection in
              if fault 2 then (release (rollback connection), delete_category_failed)
              else (case select_category_label (working connection) categoryId uid of
                      [] \<Rightarrow>
                        (release (rollback connection),
                         respond 404 (Error ''Custom category not found or not authorized for this user.''))
                    | deletedCategoryLabel # rest \<Rightarrow>
                        if fault 3 then (release (rollback connection), delete_category_failed)
                        else
                          let deleteInfodataResult =
                                delete_infodata_of_section (working connection) uid deletedCategoryLabel;
                              connection = connection\<lparr>working := snd deleteInfodataResult\<rparr>;
                              connection = others_commit others connection
                          in if fault 4 then (release (rollback connection), delete_category_failed)
                             else
                               let deleteCategoryResult =
                                     delete_category (working connection) categoryId uid;
                                   connection = connection\<lparr>working := snd deleteCategoryResult\<rparr>
                               in if fst deleteCategoryResult = 0
                                  then (release (rollback connection),
                                        respond 404 (Error ''Custom category not found or could not be deleted from categories table.''))
                                  else if fault 5
                                  then (release (rollback connection), delete_category_failed)
                                  else (release (commit connection),
                                        respond 200 (CategoryDeleted deletedCategoryLabel
                                                       (fst deleteInfodataResult)))))"

section \<open>routes/profileRoutes.js: the balance and its income entries\<close>

text \<open>
  \<^verbatim>\<open>
  router.delete("/income-transactions/delete/:id", verifyToken, async (req, res) => {
      const userId = req.user.userId;
      const transactionId = req.params.id;
      if (!userId) { return res.status(401).json({ error: "User ID not found in token payload." }); }
      let connection;
      try {
          connection = await pool.promise().getConnection();
          await connection.beginTransaction();
          const [transactionRows] = await connection.query(
              'SELECT value FROM infodata WHERE id = ? AND user_id = ? AND section = \'Income\'',
              [transactionId, userId]);
          if (transactionRows.length === 0) {
              await connection.rollback();
              return res.status(404).json({ error: "Transaction not found or unauthorized." });
          }
          const amountToDeduct = parseFloat(transactionRows[0].value);
          await connection.query('DELETE FROM infodata WHERE id = ? AND user_id = ?', [transactionId, userId]);
          const [userRows] = await connection.query('SELECT balance FROM users WHERE id = ? FOR UPDATE', [userId]);
          if (userRows.length > 0) {
              const currentBalance = parseFloat(userRows[0].balance) || 0;
              const newBalance = currentBalance - amountToDeduct;
              await connection.query('UPDATE users SET balance = ? WHERE id = ?', [newBalance, userId]);
          }
          await connection.commit();
          res.json({ message: "Deposit entry deleted successfully." });
      } catch (err) {
          if (connection) await connection.rollback();
          res.status(500).json({ error: "Failed to delete deposit entry.", details: err.message });
      } finally {
          if (connection) connection.release();
      }
  });
  \<close>
  Awaited calls: 0 \<open>getConnection\<close>, 1 \<open>beginTransaction\<close>, 2 the \<open>SELECT\<close> on
  \<open>infodata\<close>, 3 the \<open>DELETE\<close>, 4 the \<open>SELECT\<close> on \<open>users\<close>, 5 the \<open>UPDATE\<close>, 6 \<open>commit\<close>.
  \<open>parseFloat\<close> reads the columns as doubles and \<open>-\<close> is the subtraction of doubles; the
  \<open>value\<close> column is taken to be \<open>NOT NULL\<close>.
\<close>

definition select_income_value :: "database \<Rightarrow> nat \<Rightarrow> nat \<Rightarrow> real list" where
  "select_income_value db transactionId userId =
     map i_value
       (filter (\<lambda>r. i_id r = transactionId \<and> i_user_id r = userId \<and> i_section r = ''Income'')
          (infodata db))"

definition delete_infodata_by_id :: "database \<Rightarrow> nat \<Rightarrow> nat \<Rightarrow> database" where
  "delete_infodata_by_id db transactionId userId =
     db\<lparr>infodata := filter (\<lambda>r. \<not> (i_id r = transactionId \<and> i_user_id r = userId)) (infodata db)\<rparr>"

definition select_balance :: "database \<Rightarrow> nat \<Rightarrow> real option list" where
  "select_balance db userId = map u_balance (filter (\<lambda>u. u_id u = userId) (users db))"

definition update_balance :: "database \<Rightarrow> real \<Rightarrow> nat \<Rightarrow> database" where
  "update_balance db newBalance userId =
     db\<lparr>users := map (\<lambda>u. if u_id u = userId then u\<lparr>u_balance := Some newBalance\<rparr> else u)
                     (users db)\<rparr>"

text \<open>
  A number as a parameter of a statement: \<open>connection.query\<close> writes it into the text
  of the statement as JavaScript prints it. A finite number is a decimal literal, which
  the column stores; \<open>Infinity\<close>, \<open>-Infinity\<close> and \<open>NaN\<close> are words that MySQL reads as
  names of columns and refuses, so the query rejects (\<open>None\<close>).
\<close>

definition sql_number :: "js_number \<Rightarrow> real option" where
  "sql_number x = (case x of Finite v \<Rightarrow> Some v | _ \<Rightarrow> None)"

definition delete_income_failed :: response where
  "delete_income_failed = respond 500 (Error ''Failed to delete deposit entry.'')"

definition delete_income_transaction ::
  "faults \<Rightarrow> database \<Rightarrow> nat option \<Rightarrow> nat \<Rightarrow> database \<times> response"
where
  "delete_income_transaction fault db userId transactionId =
     (case userId of
        None \<Rightarrow> (db, respond 401 (Error ''User ID not found in token payload.''))
      | Some uid \<Rightarrow>
          if uid = 0 then (db, respond 401 (Error ''User ID not found in token payload.''))
          else if fault 0 then (db, delete_income_failed)
          else
            let connection = getConnection db in
            if fault 1 then (release (rollback connection), delete_income_failed)
            else
              let connection = beginTransaction connection in
              if fault 2 then (release (rollback connection), delete_income_failed)
              else (case select_income_value (working connection) transactionId uid of
                      [] \<Rightarrow>
                        (release (rollback connection),
                         respond 404 (Error ''Transaction not found or unauthorized.''))
                    | selected # rest \<Rightarrow>
                        let amountToDeduct = to_double selected in
                        if fault 3 then (release (rollback connection), delete_income_failed)
                        else
                          let connection =
                                connection\<lparr>working :=
                                  delete_infodata_by_id (working connection) transactionId uid\<rparr>
                          in if fault 4 then (release (rollback connection), delete_income_failed)
                             else (case select_balance (working connection) uid of
                                     [] \<Rightarrow>
                                       if fault 6
                                       then (release (rollback connection), delete_income_failed)
                                       else (release (commit connection),
                                             respond 200 (Message ''Deposit entry deleted successfully.''))
                                   | balance # rest \<Rightarrow>
                                       let currentBalance = parseFloat_column_or_0 balance;
                                           newBalance = js_sub currentBalance amountToDeduct
                                       in if fault 5
                                          then (release (rollback connection), delete_income_failed)
                                          else (case sql_number newBalance of
                                                  None \<Rightarrow>
                                                    (release (rollback connection), delete_income_failed)
                                                | Some stored \<Rightarrow>
                                                    let connection =
                                                          connection\<lparr>working :=
                                                            update_balance (working connection) stored uid\<rparr>
                                                    in if fault 6
                                                       then (release (rollback connection),
                                                             delete_income_failed)
                                                       else (release (commit connection),
                                                             respond 200
                                                               (Message ''Deposit entry deleted successfully.''))))))"






section \<open>Example stores and requests\<close>

text \<open>An example store: two users, one of them logged in with refresh token \<open>r1\<close>.\<close>

definition alice :: user_row where
  "alice = \<lparr>u_id = 11, u_email = ''a@x.com'', u_password = ''hash-a'',
            u_refresh_token = Some ''r1'', u_balance = Some 100\<rparr>"

definition bob :: user_row where
  "bob = \<lparr>u_id = 12, u_email = ''b@x.com'', u_password = ''hash-b'',
          u_refresh_token = None, u_balance = None\<rparr>"

definition example_refresh_verify :: "string \<Rightarrow> js_error + nat" where
  "example_refresh_verify t =
     (if t = ''r1'' \<or> t = ''r0'' then Inr 11 else if t = ''r2'' then Inr 12 else Inl malformed_error)"

definition example_sign :: "nat \<Rightarrow> string \<Rightarrow> string" where
  "example_sign userId email = ''access-'' @ email"

definition example_sign_refresh :: "nat \<Rightarrow> string" where
  "example_sign_refresh userId = ''fresh''"

definition example_compare :: "string \<Rightarrow> string \<Rightarrow> bool" where
  "example_compare password hash = (hash = ''hash-'' @ password)"

definition auth_db :: database where
  "auth_db = \<lparr>users = [alice, bob], infodata = [], categories = []\<rparr>"

text \<open>
  An example ledger: user 11 has a lunch, a deposit, and two entries in the custom
  category \<open>Gym\<close>; user 12 has a category and an entry of the same label.
\<close>

definition ymd :: "int \<Rightarrow> nat \<Rightarrow> nat \<Rightarrow> date" where
  "ymd y m d = \<lparr>year = y, month = m, day = d\<rparr>"

definition entry :: "nat \<Rightarrow> nat \<Rightarrow> string \<Rightarrow> real \<Rightarrow> date \<Rightarrow> string \<Rightarrow> infodata_row" where
  "entry n uid title v d s =
     \<lparr>i_id = n, i_user_id = uid, i_title = title, i_value = v, i_date = d, i_section = s,
      i_target = None, i_payment_mode = Some ''Cash''\<rparr>"

definition gym_category :: "nat \<Rightarrow> nat \<Rightarrow> category_row" where
  "gym_category n uid =
     \<lparr>c_id = n, c_user_id = Some uid, c_label = ''Gym'', c_iconName = Some ''dumbbell'',
      c_iconColor = Some ''#333'', c_iconLibrary = Some ''fa'', c_target = Some 0\<rparr>"

definition ledger_db :: database where
  "ledger_db =
     \<lparr>users = [alice, bob],
      infodata =
        [entry 101 11 ''Lunch'' 30 (ymd 2024 2 10) ''Food'',
         entry 102 11 ''Balance Addition'' 100 (ymd 2024 2 11) ''Income'',
         entry 103 11 ''Gym fee'' 20 (ymd 2024 2 20) ''Gym'',
         entry 104 12 ''Gym fee'' 25 (ymd 2024 2 21) ''Gym'',
         entry 105 11 ''Gym shoes'' 50 (ymd 2023 12 5) ''Gym''],
      categories = [gym_category 7 11, gym_category 8 12]\<rparr>"

text \<open>A store with one deposit of each user; the second user's balance is \<open>NULL\<close>.\<close>

definition deposit_db :: database where
  "deposit_db =
     \<lparr>users = [alice, bob],
      infodata =
        [entry 102 11 ''Balance Addition'' 100 (ymd 2024 2 11) ''Income'',
         entry 106 12 ''Balance Addition'' 40 (ymd 2024 2 22) ''Income''],
      categories = []\<rparr>"


text \<open>
  Stores on which the arithmetic of doubles shows: a balance of \<open>10 ^ 16\<close> with a
  deposit of 1, a balance of \<open>2 ^ 53\<close>, and a balance of 0.3 with a deposit of 0.1.
\<close>

definition carol :: "real option \<Rightarrow> user_row" where
  "carol balance = \<lparr>u_id = 13, u_email = ''c@x.com'', u_password = ''hash-c'',
                    u_refresh_token = None, u_balance = balance\<rparr>"

definition carol_db :: "real option \<Rightarrow> real \<Rightarrow> database" where
  "carol_db balance deposit =
     \<lparr>users = [carol balance],
      infodata = [entry 110 13 ''Balance Addition'' deposit (ymd 2024 2 11) ''Income''],
      categories = []\<rparr>"
section \<open>The time-bucketed summaries as the specification words them\<close>

text \<open>
  The specification asks for one bucket per month (or day) of the requested window, in
  chronological order and without gaps, each with the sum of the user's rows of that
  bucket that are not \<open>Income\<close> (0 when there is none). The two definitions below say
  this directly; they are compared with the handlers.
\<close>





text \<open>
  The days that the loop of the daily summary visits from \<open>startDate\<close> to \<open>endDate\<close>.
  That these are exactly the calendar days of the range, each once and in order, is
  proved below (\<open>calendar_days_sorted\<close>, \<open>set_calendar_days\<close>).
\<close>

definition calendar_days :: "date \<Rightarrow> date \<Rightarrow> date list" where
  "calendar_days startDate endDate = map fst (daily_loop Map.empty startDate endDate [])"

section \<open>The balance after a sequence of deposits\<close>

section \<open>Verification: shared facts\<close>

lemma status_respond [simp]: "status (respond s b) = s"
  by (simp add: respond_def)

lemma body_respond [simp]: "body (respond s b) = b"
  by (simp add: respond_def)

text \<open>Whole numbers up to \<open>2 ^ 53\<close> are doubles, and their sums and differences are exact.\<close>

lemma double_limit_eq: "double_limit = 2 ^ 1024"
  by (simp add: double_limit_def)

lemma round_half_even_of_int [simp]: "round_half_even (of_int z) = z"
  by (simp add: round_half_even_def)

lemma binade_of_int:
  assumes "n \<noteq> 0"
  shows "binade (of_int n) = bitlen \<bar>n\<bar> - 1"
proof -
  have "1 \<le> \<bar>real_of_int n\<bar>" using assms by linarith
  moreover have "\<lfloor>\<bar>real_of_int n\<bar>\<rfloor> = \<bar>n\<bar>"
    by (metis floor_of_int of_int_abs)
  ultimately show ?thesis by (simp add: binade_def)
qed

lemma bitlen_le_54:
  assumes "0 < a" "a \<le> 2 ^ 53"
  shows "bitlen a \<le> 54"
proof (rule ccontr)
  assume "\<not> bitlen a \<le> 54"
  then have "55 \<le> bitlen a" by simp
  then have "(2::int) ^ 54 \<le> 2 ^ nat (bitlen a - 1)"
    by (intro power_increasing) auto
  also have "\<dots> \<le> a" using bitlen_bounds [OF assms(1)] by simp
  finally show False using assms(2) by simp
qed

lemma bitlen_54:
  assumes "0 < a" "a \<le> 2 ^ 53" "bitlen a = 54"
  shows "a = 2 ^ 53"
proof -
  have "(2::int) ^ nat (bitlen a - 1) \<le> a" using bitlen_bounds [OF assms(1)] by simp
  then have "(2::int) ^ 53 \<le> a" by (simp add: assms(3))
  with assms(2) show ?thesis by simp
qed

lemma round_double_of_int:
  assumes "\<bar>n\<bar> \<le> 2 ^ 53"
  shows "round_double (of_int n) = of_int n"
proof (cases "n = 0")
  case True
  then show ?thesis by (simp add: round_double_def)
next
  case False
  define a where "a = \<bar>n\<bar>"
  have a: "0 < a" "a \<le> 2 ^ 53" using False assms by (simp_all add: a_def)
  have k: "1 \<le> bitlen a" "bitlen a \<le> 54"
    using a bitlen_le_54 bitlen_eq_zero_iff [of a] bitlen_nonneg [of a] by (auto simp: le_less)
  define e where "e = max (binade (of_int n) - 52) (- 1074)"
  have e: "e = bitlen a - 53"
    using k by (simp add: e_def binade_of_int [OF False] a_def)
  have "\<exists>z. real_of_int n / pow2 e = of_int z"
  proof (cases "bitlen a = 54")
    case True
    then have "a = 2 ^ 53" using a bitlen_54 by blast
    then have "n = 2 ^ 53 \<or> n = - (2 ^ 53)" by (auto simp: a_def)
    moreover have "pow2 e = 2" using True e by (simp add: pow2_def)
    ultimately have "real_of_int n / pow2 e = of_int (n div 2)" by auto
    then show ?thesis by blast
  next
    case False
    with k have "e \<le> 0" using e by simp
    then have "real_of_int n / pow2 e = of_int (n * 2 ^ nat (- e))"
      by (cases "e = 0") (simp_all add: pow2_def)
    then show ?thesis by blast
  qed
  then obtain z where z: "real_of_int n / pow2 e = of_int z" by blast
  have pos: "pow2 e \<noteq> 0" by (simp add: pow2_def)
  have "round_double (of_int n) = of_int (round_half_even (real_of_int n / pow2 e)) * pow2 e"
    using False by (simp add: round_double_def e_def Let_def)
  also have "\<dots> = (real_of_int n / pow2 e) * pow2 e"
    by (simp add: z)
  also have "\<dots> = of_int n" using pos by simp
  finally show ?thesis .
qed

lemma to_double_of_int:
  assumes "\<bar>n\<bar> \<le> 2 ^ 53"
  shows "to_double (of_int n) = Finite (of_int n)"
proof -
  have "\<bar>real_of_int n\<bar> \<le> 2 ^ 53"
    using assms by (metis of_int_abs of_int_le_iff of_int_numeral of_int_power)
  moreover have "(2::real) ^ 53 < double_limit" by (simp add: double_limit_def)
  ultimately have "real_of_int n < double_limit" "- double_limit < real_of_int n" by linarith+
  then show ?thesis
    by (simp add: to_double_def round_double_of_int [OF assms] Let_def not_le)
qed


lemma js_sub_of_int:
  assumes "\<bar>m - n\<bar> \<le> 2 ^ 53"
  shows "js_sub (Finite (of_int m)) (Finite (of_int n)) = Finite (of_int (m - n))"
  using to_double_of_int [OF assms] by (simp add: js_sub_def)



lemma sql_number_None: "(sql_number x = None) = (\<forall>v. x \<noteq> Finite v)"
  by (cases x) (simp_all add: sql_number_def)













lemma parseFloat_column_or_0_of_int:
  assumes "parseFloat_or_0 balance = of_int b" "\<bar>b\<bar> \<le> 2 ^ 53"
  shows "parseFloat_column_or_0 balance = Finite (of_int b)"
proof (cases balance)
  case None
  with assms(1) have "b = 0" by (simp add: parseFloat_or_0_def)
  with None show ?thesis by (simp add: parseFloat_column_or_0_def)
next
  case (Some v)
  with assms(1) have "v = of_int b" by (simp add: parseFloat_or_0_def)
  with Some to_double_of_int [OF assms(2)] show ?thesis
    by (simp add: parseFloat_column_or_0_def)
qed
section \<open>Verification: retryOperation\<close>

lemma retry_loop_unfold:
  "retry_loop operation maxRetries i lastError trace =
     (if i < maxRetries then
        (case operation i of
           Resolved v \<Rightarrow> (Return v, trace @ [Call i])
         | Rejected error \<Rightarrow>
             if e_code error = ''ER_USER_LIMIT_REACHED''
             then retry_loop operation maxRetries (i + 1) (Some error)
                    (trace @ [Call i, Sleep (1000 * (i + 1))])
             else (Throw (Some error), trace @ [Call i]))
      else (Throw lastError, trace))"
  by (rule retry_loop.simps)

declare retry_loop.simps [simp del]

lemma backoff_trace_0: "backoff_trace i 0 = []"
  by (simp add: backoff_trace_def)

lemma backoff_trace_Suc:
  "backoff_trace i (Suc k) = [Call i, Sleep (1000 * (i + 1))] @ backoff_trace (Suc i) k"
  by (simp add: backoff_trace_def upt_conv_Cons)

lemma retry_loop_transient_prefix:
  "\<lbrakk>\<forall>j<k. transient (operation (i + j)); i + k \<le> maxRetries; 0 < k\<rbrakk> \<Longrightarrow>
   retry_loop operation maxRetries i lastError trace =
   retry_loop operation maxRetries (i + k) (rejection (operation (i + k - 1)))
     (trace @ backoff_trace i k)"
proof (induction k arbitrary: i lastError trace)
  case 0
  then show ?case by simp
next
  case (Suc k)
  from Suc.prems have t0: "transient (operation i)"
    by (metis add.right_neutral zero_less_Suc)
  then obtain error where op_i: "operation i = Rejected error"
    and code: "e_code error = ''ER_USER_LIMIT_REACHED''"
    by (auto simp: transient_def split: settled.splits)
  from Suc.prems have lt: "i < maxRetries" by simp
  have step: "retry_loop operation maxRetries i lastError trace =
      retry_loop operation maxRetries (Suc i) (Some error)
        (trace @ [Call i, Sleep (1000 * (i + 1))])"
    by (subst retry_loop_unfold) (simp add: op_i code lt)
  show ?case
  proof (cases "k = 0")
    case True
    then show ?thesis
      by (simp add: step backoff_trace_Suc backoff_trace_0 rejection_def op_i)
  next
    case False
    have "\<forall>j<k. transient (operation (Suc i + j))"
      using Suc.prems(1) by (metis Suc_less_eq add_Suc_shift)
    moreover have "Suc i + k \<le> maxRetries" using Suc.prems(2) by simp
    ultimately have "retry_loop operation maxRetries (Suc i) (Some error)
        (trace @ [Call i, Sleep (1000 * (i + 1))]) =
      retry_loop operation maxRetries (Suc i + k) (rejection (operation (Suc i + k - 1)))
        ((trace @ [Call i, Sleep (1000 * (i + 1))]) @ backoff_trace (Suc i) k)"
      using False Suc.IH by blast
    then show ?thesis
      by (simp add: step backoff_trace_Suc)
  qed
qed

lemma retry_loop_stop:
  "i < maxRetries \<Longrightarrow> \<not> transient (operation i) \<Longrightarrow>
   retry_loop operation maxRetries i lastError trace =
     ((case operation i of Resolved v \<Rightarrow> Return v | Rejected error \<Rightarrow> Throw (Some error)),
      trace @ [Call i])"
  by (subst retry_loop_unfold) (simp add: transient_def split: settled.splits)

lemma retry_loop_exhausted:
  "retry_loop operation maxRetries maxRetries lastError trace = (Throw lastError, trace)"
  by (subst retry_loop_unfold) simp

lemma retryOperation_stops_at:
  assumes "k < maxRetries" "\<forall>j<k. transient (operation j)" "\<not> transient (operation k)"
  shows "retryOperation operation maxRetries =
     ((case operation k of Resolved v \<Rightarrow> Return v | Rejected error \<Rightarrow> Throw (Some error)),
      backoff_trace 0 k @ [Call k])"
proof (cases "k = 0")
  case True
  then show ?thesis using assms
    by (simp add: retryOperation_def retry_loop_stop backoff_trace_0)
next
  case False
  then have "retry_loop operation maxRetries 0 None [] =
      retry_loop operation maxRetries (0 + k) (rejection (operation (0 + k - 1)))
        ([] @ backoff_trace 0 k)"
    using assms by (intro retry_loop_transient_prefix) auto
  then show ?thesis using assms
    by (simp add: retryOperation_def retry_loop_stop)
qed

lemma retryOperation_all_transient:
  assumes "0 < maxRetries" "\<forall>j<maxRetries. transient (operation j)"
  shows "retryOperation operation maxRetries =
     (Throw (rejection (operation (maxRetries - 1))), backoff_trace 0 maxRetries)"
proof -
  have "retry_loop operation maxRetries 0 None [] =
      retry_loop operation maxRetries (0 + maxRetries)
        (rejection (operation (0 + maxRetries - 1))) ([] @ backoff_trace 0 maxRetries)"
    using assms by (intro retry_loop_transient_prefix) auto
  then show ?thesis
    by (simp add: retryOperation_def retry_loop_exhausted)
qed

text \<open>
  C4. With \<open>maxRetries = 3\<close>, for every operation (every sequence of outcomes of its
  calls): (1) when call \<open>k < 3\<close> is the first that does not reject with code
  \<open>ER_USER_LIMIT_REACHED\<close> and it rejects with another error, that error is thrown at
  once: the run is calls 0..k, with a wait of \<open>1000 * (j + 1)\<close> ms after each failed call
  \<open>j < k\<close> (1000 after the first attempt, 2000 after the second: linear) and nothing after
  call \<open>k\<close>; (2) when that call resolves, its value is returned after the same calls and
  waits; (3) when all three calls reject with the transient code, the error of the last
  call is thrown, after calls 0, 1, 2 and waits of 1000, 2000 and 3000 ms.
\<close>

theorem retryOperation_policy:
  fixes operation :: "nat \<Rightarrow> 'a settled"
  shows
  "(\<forall>k error. k < 3 \<and> (\<forall>j<k. transient (operation j)) \<and> operation k = Rejected error
        \<and> e_code error \<noteq> ''ER_USER_LIMIT_REACHED'' \<longrightarrow>
      retryOperation operation 3 =
        (Throw (Some error),
         concat (map (\<lambda>j. [Call j, Sleep (1000 * (j + 1))]) [0..<k]) @ [Call k]))
   \<and> (\<forall>k v. k < 3 \<and> (\<forall>j<k. transient (operation j)) \<and> operation k = Resolved v \<longrightarrow>
      retryOperation operation 3 =
        (Return v, concat (map (\<lambda>j. [Call j, Sleep (1000 * (j + 1))]) [0..<k]) @ [Call k]))
   \<and> ((\<forall>j<3. transient (operation j)) \<longrightarrow>
      retryOperation operation 3 =
        (Throw (rejection (operation 2)),
         [Call 0, Sleep 1000, Call 1, Sleep 2000, Call 2, Sleep 3000]))"
proof (intro conjI allI impI)
  fix k error
  assume a: "k < 3 \<and> (\<forall>j<k. transient (operation j)) \<and> operation k = Rejected error
        \<and> e_code error \<noteq> ''ER_USER_LIMIT_REACHED''"
  then have "\<not> transient (operation k)" by (simp add: transient_def)
  with a show "retryOperation operation 3 =
        (Throw (Some error),
         concat (map (\<lambda>j. [Call j, Sleep (1000 * (j + 1))]) [0..<k]) @ [Call k])"
    using retryOperation_stops_at [of k 3 operation] by (simp add: backoff_trace_def)
next
  fix k v
  assume a: "k < 3 \<and> (\<forall>j<k. transient (operation j)) \<and> operation k = Resolved v"
  then have "\<not> transient (operation k)" by (simp add: transient_def)
  with a show "retryOperation operation 3 =
        (Return v, concat (map (\<lambda>j. [Call j, Sleep (1000 * (j + 1))]) [0..<k]) @ [Call k])"
    using retryOperation_stops_at [of k 3 operation] by (simp add: backoff_trace_def)
next
  assume a: "\<forall>j<3. transient (operation j)"
  have "backoff_trace 0 3 = [Call 0, Sleep 1000, Call 1, Sleep 2000, Call 2, Sleep 3000]"
    by (simp add: backoff_trace_def upt_rec numeral_3_eq_3)
  then show "retryOperation operation 3 =
        (Throw (rejection (operation 2)),
         [Call 0, Sleep 1000, Call 1, Sleep 2000, Call 2, Sleep 3000])"
    using retryOperation_all_transient [of 3 operation] a by simp
qed

theorem retryOperation_policy_witness:
  "retryOperation (\<lambda>i. if i = 0 then Rejected limit_error else (Rejected parse_error :: nat settled)) 3
     = (Throw (Some parse_error), [Call 0, Sleep 1000, Call 1])
   \<and> retryOperation (\<lambda>i. if i < 2 then Rejected limit_error else Resolved (7::nat)) 3
     = (Return 7, [Call 0, Sleep 1000, Call 1, Sleep 2000, Call 2])
   \<and> retryOperation (\<lambda>i. (Rejected (limit_error\<lparr>e_message := [char_of i]\<rparr>) :: nat settled)) 3
     = (Throw (Some (limit_error\<lparr>e_message := [char_of (2::nat)]\<rparr>)),
        [Call 0, Sleep 1000, Call 1, Sleep 2000, Call 2, Sleep 3000])"
proof (intro conjI)
  let ?op1 = "\<lambda>i::nat. if i = 0 then Rejected limit_error else (Rejected parse_error :: nat settled)"
  have "1 < (3::nat) \<and> (\<forall>j<1. transient (?op1 j)) \<and> ?op1 1 = Rejected parse_error
        \<and> e_code parse_error \<noteq> ''ER_USER_LIMIT_REACHED''"
    by (simp add: transient_def limit_error_def parse_error_def)
  with retryOperation_policy [of ?op1]
  have "retryOperation ?op1 3 = (Throw (Some parse_error),
         concat (map (\<lambda>j. [Call j, Sleep (1000 * (j + 1))]) [0..<1]) @ [Call 1])"
    by blast
  then show "retryOperation ?op1 3 = (Throw (Some parse_error), [Call 0, Sleep 1000, Call 1])"
    by simp
next
  let ?op2 = "\<lambda>i::nat. if i < 2 then Rejected limit_error else Resolved (7::nat)"
  have "2 < (3::nat) \<and> (\<forall>j<2. transient (?op2 j)) \<and> ?op2 2 = Resolved 7"
    by (simp add: transient_def limit_error_def)
  with retryOperation_policy [of ?op2]
  have "retryOperation ?op2 3 = (Return 7,
         concat (map (\<lambda>j. [Call j, Sleep (1000 * (j + 1))]) [0..<2]) @ [Call 2])"
    by blast
  then show "retryOperation ?op2 3 = (Return 7, [Call 0, Sleep 1000, Call 1, Sleep 2000, Call 2])"
    by (simp add: upt_rec numeral_2_eq_2)
next
  let ?op3 = "\<lambda>i::nat. (Rejected (limit_error\<lparr>e_message := [char_of i]\<rparr>) :: nat settled)"
  have "\<forall>j<3. transient (?op3 j)"
    by (simp add: transient_def limit_error_def)
  with retryOperation_policy [of ?op3]
  show "retryOperation ?op3 3 = (Throw (Some (limit_error\<lparr>e_message := [char_of (2::nat)]\<rparr>)),
        [Call 0, Sleep 1000, Call 1, Sleep 2000, Call 2, Sleep 3000])"
    by (simp add: rejection_def)
qed

section \<open>Verification: verifyToken\<close>

text \<open>
  C7. For every request and every verifier: when the \<open>Authorization\<close> header is absent
  or empty, or has no second piece after a space (no token), the middleware answers
  with status 401; when a token is there and its verification throws, it answers with
  status 403, and only the message tells expiry (\<open>Token expired\<close>) from any other
  failure (\<open>Invalid token\<close>); when verification succeeds the request is handed on with
  the decoded payload.
\<close>

theorem verifyToken_status:
  "(authorization = None \<or> authorization = Some [] \<longrightarrow>
      verifyToken jwt_verify authorization = Respond (respond 401 (Error ''No authorization header'')))
   \<and> (\<forall>bearerHeader. authorization = Some bearerHeader \<and> bearerHeader \<noteq> []
          \<and> (nth_opt (split_on CHR '' '' bearerHeader) 1 = None
              \<or> nth_opt (split_on CHR '' '' bearerHeader) 1 = Some []) \<longrightarrow>
      verifyToken jwt_verify authorization = Respond (respond 401 (Error ''No token provided'')))
   \<and> (\<forall>bearerHeader token error. authorization = Some bearerHeader \<and> bearerHeader \<noteq> []
          \<and> nth_opt (split_on CHR '' '' bearerHeader) 1 = Some token \<and> token \<noteq> []
          \<and> jwt_verify token = Inl error \<longrightarrow>
      verifyToken jwt_verify authorization =
        Respond (respond 403 (Error (if e_name error = ''TokenExpiredError''
                                     then ''Token expired'' else ''Invalid token''))))
   \<and> (\<forall>bearerHeader token decoded. authorization = Some bearerHeader \<and> bearerHeader \<noteq> []
          \<and> nth_opt (split_on CHR '' '' bearerHeader) 1 = Some token \<and> token \<noteq> []
          \<and> jwt_verify token = Inr decoded \<longrightarrow>
      verifyToken jwt_verify authorization = Next decoded)"
  by (auto simp: verifyToken_def)

theorem verifyToken_status_witness:
  "verifyToken example_verify None = Respond (respond 401 (Error ''No authorization header''))
   \<and> verifyToken example_verify (Some ''Bearer'') = Respond (respond 401 (Error ''No token provided''))
   \<and> verifyToken example_verify (Some ''Bearer old'') = Respond (respond 403 (Error ''Token expired''))
   \<and> verifyToken example_verify (Some ''Bearer forged'') = Respond (respond 403 (Error ''Invalid token''))
   \<and> verifyToken example_verify (Some ''Bearer good'') = Next 1"
proof (intro conjI)
  show "verifyToken example_verify None = Respond (respond 401 (Error ''No authorization header''))"
    using verifyToken_status [of None example_verify] by simp
next
  have "nth_opt (split_on CHR '' '' ''Bearer'') 1 = None"
    by (simp add: nth_opt_def)
  then show "verifyToken example_verify (Some ''Bearer'') = Respond (respond 401 (Error ''No token provided''))"
    using verifyToken_status [of "Some ''Bearer''" example_verify] by simp
next
  have "nth_opt (split_on CHR '' '' ''Bearer old'') 1 = Some ''old''"
    by (simp add: nth_opt_def)
  moreover have "example_verify ''old'' = Inl expired_error"
    by (simp add: example_verify_def)
  ultimately have "verifyToken example_verify (Some ''Bearer old'') =
      Respond (respond 403 (Error (if e_name expired_error = ''TokenExpiredError''
                                     then ''Token expired'' else ''Invalid token'')))"
    using verifyToken_status [of "Some ''Bearer old''" example_verify] by simp
  then show "verifyToken example_verify (Some ''Bearer old'') = Respond (respond 403 (Error ''Token expired''))"
    by (simp add: expired_error_def)
next
  have "nth_opt (split_on CHR '' '' ''Bearer forged'') 1 = Some ''forged''"
    by (simp add: nth_opt_def)
  moreover have "example_verify ''forged'' = Inl malformed_error"
    by (simp add: example_verify_def)
  ultimately have "verifyToken example_verify (Some ''Bearer forged'') =
      Respond (respond 403 (Error (if e_name malformed_error = ''TokenExpiredError''
                                     then ''Token expired'' else ''Invalid token'')))"
    using verifyToken_status [of "Some ''Bearer forged''" example_verify] by simp
  then show "verifyToken example_verify (Some ''Bearer forged'') = Respond (respond 403 (Error ''Invalid token''))"
    by (simp add: malformed_error_def)
next
  have "nth_opt (split_on CHR '' '' ''Bearer good'') 1 = Some ''good''"
    by (simp add: nth_opt_def)
  moreover have "example_verify ''good'' = Inr 1"
    by (simp add: example_verify_def)
  ultimately show "verifyToken example_verify (Some ''Bearer good'') = Next 1"
    using verifyToken_status [of "Some ''Bearer good''" example_verify] by simp
qed

section \<open>Verification: refresh-token and login\<close>

lemma post_refresh_token_frame:
  "fst (post_refresh_token jwt_verify jwt_sign fault db refreshToken) = db"
  by (simp add: post_refresh_token_def split: option.splits sum.splits list.splits)

lemma post_refresh_token_status:
  "status (snd (post_refresh_token jwt_verify jwt_sign fault db refreshToken)) =
     (if refresh_accepted jwt_verify fault db refreshToken then 200 else 401)"
proof -
  have *: "\<And>P xs. (case filter P xs of [] \<Rightarrow> (401::nat) | x # rest \<Rightarrow> 200) =
            (if (\<exists>x \<in> set xs. P x) then 200 else 401)"
    by (auto simp: filter_empty_conv split: list.splits)
  show ?thesis
    by (auto simp: post_refresh_token_def refresh_accepted_def filter_empty_conv
        split: option.splits sum.splits list.splits)
qed

lemma post_refresh_token_body:
  assumes "refresh_accepted jwt_verify fault db refreshToken"
  shows "\<exists>u \<in> set (users db). \<exists>presented. refreshToken = Some presented
           \<and> jwt_verify presented = Inr (u_id u) \<and> u_refresh_token u = Some presented
           \<and> body (snd (post_refresh_token jwt_verify jwt_sign fault db refreshToken)) =
               Token (jwt_sign (u_id u) (u_email u))"
proof -
  from assms obtain presented userId where p: "refreshToken = Some presented" "presented \<noteq> []"
      "jwt_verify presented = Inr userId" "\<not> fault 0"
      and ex: "\<exists>u \<in> set (users db). u_id u = userId \<and> u_refresh_token u = Some presented"
    by (auto simp: refresh_accepted_def split: option.splits sum.splits)
  from ex obtain user rest where f:
      "filter (\<lambda>u. u_id u = userId \<and> u_refresh_token u = Some presented) (users db) = user # rest"
    by (cases "filter (\<lambda>u. u_id u = userId \<and> u_refresh_token u = Some presented) (users db)")
       (auto simp: filter_empty_conv)
  then have "user \<in> set (filter (\<lambda>u. u_id u = userId \<and> u_refresh_token u = Some presented) (users db))"
    by simp
  then have u: "user \<in> set (users db)" "u_id user = userId" "u_refresh_token user = Some presented"
    by auto
  have "body (snd (post_refresh_token jwt_verify jwt_sign fault db refreshToken)) =
      Token (jwt_sign (u_id user) (u_email user))"
    using p f by (simp add: post_refresh_token_def)
  with u p show ?thesis by blast
qed

lemma post_login_store:
  "fst (post_login bcrypt_compare jwt_sign jwt_sign_refresh fault db email password) =
     (if status (snd (post_login bcrypt_compare jwt_sign jwt_sign_refresh fault db email password)) = 200
      then (case filter (\<lambda>u. Some (u_email u) = email) (users db) of
              [] \<Rightarrow> db
            | user # rest \<Rightarrow> update_refresh_token (jwt_sign_refresh (u_id user)) (u_id user) db)
      else db)"
  by (auto simp: post_login_def Let_def split: option.splits list.splits)

text \<open>
  C8. For every call of \<open>POST /refresh-token\<close>: the response has status 200 exactly
  when the presented refresh token is there, decodes to a user id, the lookup does not
  fail, and a row of that user stores exactly the presented token; otherwise the status
  is 401. On success the body is an access token signed for such a user. In every case
  the store is left as it was, so the stored refresh token is unchanged. A login, in
  contrast, leaves the store unchanged unless it succeeds, and then overwrites the
  stored refresh token of the user with the new one.
\<close>

theorem refresh_token_issue_and_frame:
  "status (snd (post_refresh_token jwt_verify jwt_sign fault db refreshToken)) =
     (if refresh_accepted jwt_verify fault db refreshToken then 200 else 401)
   \<and> (refresh_accepted jwt_verify fault db refreshToken \<longrightarrow>
        (\<exists>u \<in> set (users db). \<exists>presented. refreshToken = Some presented
           \<and> jwt_verify presented = Inr (u_id u) \<and> u_refresh_token u = Some presented
           \<and> body (snd (post_refresh_token jwt_verify jwt_sign fault db refreshToken)) =
               Token (jwt_sign (u_id u) (u_email u))))
   \<and> fst (post_refresh_token jwt_verify jwt_sign fault db refreshToken) = db
   \<and> fst (post_login bcrypt_compare jwt_sign jwt_sign_refresh fault' db email password) =
       (if status (snd (post_login bcrypt_compare jwt_sign jwt_sign_refresh fault' db email password)) = 200
        then (case filter (\<lambda>u. Some (u_email u) = email) (users db) of
                [] \<Rightarrow> db
              | user # rest \<Rightarrow> update_refresh_token (jwt_sign_refresh (u_id user)) (u_id user) db)
        else db)"
proof (intro conjI impI)
  show "status (snd (post_refresh_token jwt_verify jwt_sign fault db refreshToken)) =
     (if refresh_accepted jwt_verify fault db refreshToken then 200 else 401)"
    by (rule post_refresh_token_status)
next
  assume "refresh_accepted jwt_verify fault db refreshToken"
  then show "\<exists>u \<in> set (users db). \<exists>presented. refreshToken = Some presented
           \<and> jwt_verify presented = Inr (u_id u) \<and> u_refresh_token u = Some presented
           \<and> body (snd (post_refresh_token jwt_verify jwt_sign fault db refreshToken)) =
               Token (jwt_sign (u_id u) (u_email u))"
    by (rule post_refresh_token_body)
next
  show "fst (post_refresh_token jwt_verify jwt_sign fault db refreshToken) = db"
    by (rule post_refresh_token_frame)
next
  show "fst (post_login bcrypt_compare jwt_sign jwt_sign_refresh fault' db email password) =
       (if status (snd (post_login bcrypt_compare jwt_sign jwt_sign_refresh fault' db email password)) = 200
        then (case filter (\<lambda>u. Some (u_email u) = email) (users db) of
                [] \<Rightarrow> db
              | user # rest \<Rightarrow> update_refresh_token (jwt_sign_refresh (u_id user)) (u_id user) db)
        else db)"
    by (rule post_login_store)
qed

theorem refresh_token_issue_and_frame_witness:
  "post_refresh_token example_refresh_verify example_sign no_fault auth_db (Some ''r1'') =
     (auth_db, respond 200 (Token ''access-a@x.com''))
   \<and> status (snd (post_refresh_token example_refresh_verify example_sign no_fault auth_db (Some ''r0''))) = 401
   \<and> fst (post_refresh_token example_refresh_verify example_sign no_fault auth_db (Some ''r0'')) = auth_db
   \<and> fst (post_login example_compare example_sign example_sign_refresh no_fault auth_db
            (Some ''b@x.com'') (Some ''b'')) =
       auth_db\<lparr>users := [alice, bob\<lparr>u_refresh_token := Some ''fresh''\<rparr>]\<rparr>"
proof -
  note thm1 = refresh_token_issue_and_frame [of example_refresh_verify example_sign no_fault auth_db
      "Some ''r1''" example_compare example_sign_refresh no_fault "Some ''b@x.com''" "Some ''b''"]
  note thm0 = refresh_token_issue_and_frame [of example_refresh_verify example_sign no_fault auth_db
      "Some ''r0''" example_compare example_sign_refresh no_fault "Some ''b@x.com''" "Some ''b''"]
  have acc1: "refresh_accepted example_refresh_verify no_fault auth_db (Some ''r1'')"
    by (simp add: refresh_accepted_def example_refresh_verify_def no_fault_def auth_db_def
        alice_def bob_def)
  have acc0: "\<not> refresh_accepted example_refresh_verify no_fault auth_db (Some ''r0'')"
    by (simp add: refresh_accepted_def example_refresh_verify_def no_fault_def auth_db_def
        alice_def bob_def)
  from thm1 acc1 have s1: "status (snd (post_refresh_token example_refresh_verify example_sign no_fault auth_db (Some ''r1''))) = 200"
    and f1: "fst (post_refresh_token example_refresh_verify example_sign no_fault auth_db (Some ''r1'')) = auth_db"
    by simp_all
  from thm1 acc1 obtain u where u: "u \<in> set (users auth_db)" "example_refresh_verify ''r1'' = Inr (u_id u)"
      "body (snd (post_refresh_token example_refresh_verify example_sign no_fault auth_db (Some ''r1''))) =
         Token (example_sign (u_id u) (u_email u))"
    by auto
  from u(1,2) have "u = alice"
    by (auto simp: auth_db_def example_refresh_verify_def alice_def bob_def)
  with u(3) have b1: "body (snd (post_refresh_token example_refresh_verify example_sign no_fault auth_db (Some ''r1''))) =
         Token ''access-a@x.com''"
    by (simp add: example_sign_def alice_def)
  have c1: "post_refresh_token example_refresh_verify example_sign no_fault auth_db (Some ''r1'') =
     (auth_db, respond 200 (Token ''access-a@x.com''))"
    using s1 f1 b1 by (cases "post_refresh_token example_refresh_verify example_sign no_fault auth_db (Some ''r1'')")
      (simp add: respond_def)
  from thm0 acc0 have c2: "status (snd (post_refresh_token example_refresh_verify example_sign no_fault auth_db (Some ''r0''))) = 401"
    and c3: "fst (post_refresh_token example_refresh_verify example_sign no_fault auth_db (Some ''r0'')) = auth_db"
    by simp_all
  have login_ok: "status (snd (post_login example_compare example_sign example_sign_refresh no_fault auth_db
            (Some ''b@x.com'') (Some ''b''))) = 200"
    by (simp add: post_login_def no_fault_def auth_db_def alice_def bob_def example_compare_def
        trim_def js_space_def Let_def)
  from thm1 login_ok have c4: "fst (post_login example_compare example_sign example_sign_refresh no_fault auth_db
            (Some ''b@x.com'') (Some ''b'')) =
       auth_db\<lparr>users := [alice, bob\<lparr>u_refresh_token := Some ''fresh''\<rparr>]\<rparr>"
    by (simp add: auth_db_def alice_def bob_def update_refresh_token_def example_sign_refresh_def)
  from c1 c2 c3 c4 show ?thesis by blast
qed

section \<open>Verification: the period summary\<close>

lemma sum_expense_value:
  "sum_list (map expense_value rows) =
     sum_list (map i_value (filter (\<lambda>r. i_section r \<noteq> ''Income'') rows))"
  by (induction rows) (simp_all add: expense_value_def)

lemma parseFloat_or_0_sql_sum: "parseFloat_or_0 (sql_sum xs) = sum_list xs"
  by (simp add: parseFloat_or_0_def sql_sum_def)

text \<open>
  C9. For every user and every combination of filters of \<open>GET /items/summary\<close> (when
  the store answers): \<open>totalExpenses\<close> is the sum of the values of the matching rows
  whose section is not \<open>Income\<close>, while \<open>totalCount\<close> is the number of all matching
  rows; so whenever an \<open>Income\<close> row matches the filters, the count ranges over more rows
  than the sum.
\<close>

theorem get_summary_sum_and_count:
  assumes "uid \<noteq> 0" "\<not> fault 0" "\<not> fault 1"
  shows "get_summary fault db today (Some uid) category fromDate toDate period =
           respond 200
             (Summary
                (sum_list (map i_value
                   (filter (\<lambda>r. i_section r \<noteq> ''Income'')
                      (summary_rows db today uid category fromDate toDate period))))
                (length (summary_rows db today uid category fromDate toDate period)))
         \<and> ((\<exists>r \<in> set (summary_rows db today uid category fromDate toDate period).
                i_section r = ''Income'') \<longrightarrow>
              length (filter (\<lambda>r. i_section r \<noteq> ''Income'')
                        (summary_rows db today uid category fromDate toDate period))
              < length (summary_rows db today uid category fromDate toDate period))"
proof (intro conjI impI)
  show "get_summary fault db today (Some uid) category fromDate toDate period =
           respond 200
             (Summary
                (sum_list (map i_value
                   (filter (\<lambda>r. i_section r \<noteq> ''Income'')
                      (summary_rows db today uid category fromDate toDate period))))
                (length (summary_rows db today uid category fromDate toDate period)))"
    using assms
    by (simp add: get_summary_def Let_def parseFloat_or_0_sql_sum sum_expense_value)
next
  assume "\<exists>r \<in> set (summary_rows db today uid category fromDate toDate period).
                i_section r = ''Income''"
  then obtain r where r: "r \<in> set (summary_rows db today uid category fromDate toDate period)"
      "i_section r = ''Income''"
    by blast
  show "length (filter (\<lambda>r. i_section r \<noteq> ''Income'')
                        (summary_rows db today uid category fromDate toDate period))
              < length (summary_rows db today uid category fromDate toDate period)"
    using r length_filter_less [of r "summary_rows db today uid category fromDate toDate period"
        "\<lambda>r. i_section r \<noteq> ''Income''"]
    by simp
qed


lemma ledger_summary_rows:
  "summary_rows ledger_db (ymd 2024 3 1) 11 None (Some (ymd 2024 2 1)) None None =
     [entry 101 11 ''Lunch'' 30 (ymd 2024 2 10) ''Food'',
      entry 102 11 ''Balance Addition'' 100 (ymd 2024 2 11) ''Income'',
      entry 103 11 ''Gym fee'' 20 (ymd 2024 2 20) ''Gym'']"
  by (simp add: summary_rows_def ledger_db_def matches_filters_def entry_def ymd_def date_le_def)

theorem get_summary_sum_and_count_witness:
  "get_summary no_fault ledger_db (ymd 2024 3 1) (Some 11) None (Some (ymd 2024 2 1)) None None =
     respond 200 (Summary 50 3)
   \<and> length (filter (\<lambda>r. i_section r \<noteq> ''Income'')
        (summary_rows ledger_db (ymd 2024 3 1) 11 None (Some (ymd 2024 2 1)) None None)) < 3"
proof -
  have ex: "\<exists>r \<in> set (summary_rows ledger_db (ymd 2024 3 1) 11 None (Some (ymd 2024 2 1)) None None).
              i_section r = ''Income''"
    unfolding ledger_summary_rows by (simp add: entry_def)
  have "(11::nat) \<noteq> 0" "\<not> no_fault 0" "\<not> no_fault 1"
    by (simp_all add: no_fault_def)
  from get_summary_sum_and_count [OF this, of ledger_db "ymd 2024 3 1" None "Some (ymd 2024 2 1)" None None] ex
  have "get_summary no_fault ledger_db (ymd 2024 3 1) (Some 11) None (Some (ymd 2024 2 1)) None None =
     respond 200 (Summary
        (sum_list (map i_value (filter (\<lambda>r. i_section r \<noteq> ''Income'')
           (summary_rows ledger_db (ymd 2024 3 1) 11 None (Some (ymd 2024 2 1)) None None))))
        (length (summary_rows ledger_db (ymd 2024 3 1) 11 None (Some (ymd 2024 2 1)) None None)))
   \<and> length (filter (\<lambda>r. i_section r \<noteq> ''Income'')
        (summary_rows ledger_db (ymd 2024 3 1) 11 None (Some (ymd 2024 2 1)) None None))
      < length (summary_rows ledger_db (ymd 2024 3 1) 11 None (Some (ymd 2024 2 1)) None None)"
    by blast
  then show ?thesis
    unfolding ledger_summary_rows by (simp add: entry_def)
qed


section \<open>Verification: the listing\<close>

text \<open>
  A page size of 0 and a page of 0 are falsy and are replaced by the defaults 10 and 1.
  A negative page is truthy, is kept, and makes the offset negative: the listing
  statement is then refused by the store and the handler answers 500.
\<close>

lemma get_items_zero_limit_is_default:
  "get_items fault db userId q_page (Some 0) category fromDate toDate =
   get_items fault db userId q_page (Some 10) category fromDate toDate"
  by (simp add: get_items_def parseInt_or_def split: option.splits)

lemma get_items_zero_page_is_first:
  "get_items fault db userId (Some 0) q_limit category fromDate toDate =
   get_items fault db userId (Some 1) q_limit category fromDate toDate"
  by (simp add: get_items_def parseInt_or_def split: option.splits)

lemma get_items_negative_page_general:
  assumes "uid \<noteq> 0" "page < 0" "0 \<le> limit"
  shows "status (get_items fault db (Some uid) (Some page) (Some limit) category fromDate toDate) = 500"
proof -
  have "(page - 1) * parseInt_or (Some limit) 10 < 0"
    using assms by (auto simp: parseInt_or_def mult_less_0_iff)
  then show ?thesis
    using assms
    by (simp add: get_items_def parseInt_or_def sql_limit_offset_def Let_def respond_def)
qed

text \<open>
  C6. The listing request \<open>GET /items?_page=-1\<close> of an authenticated user (no
  \<open>_limit\<close>, any filters, any store, no store fault) is neither rejected with a
  validation error nor normalised: the offset is \<open>(-1 - 1) * 10 = -20\<close> and the response
  is 500 \<open>Failed to fetch items.\<close>
\<close>

theorem get_items_negative_page_fails:
  "get_items no_fault db (Some 1) (Some (- 1)) None category fromDate toDate =
     respond 500 (Error ''Failed to fetch items.'')"
  by (simp add: get_items_def no_fault_def parseInt_or_def sql_limit_offset_def Let_def)


section \<open>Verification: deleting a custom category\<close>

lemma delete_custom_category_normal_form:
  assumes "uid \<noteq> 0"
  shows "delete_custom_category fault others db (Some uid) categoryId =
     (if fault 0 \<or> fault 1 \<or> fault 2 then (db, delete_category_failed)
      else (case select_category_label db categoryId uid of
              [] \<Rightarrow> (db, respond 404 (Error ''Custom category not found or not authorized for this user.''))
            | label # rest \<Rightarrow>
                if fault 3 then (db, delete_category_failed)
                else if fault 4 then (db\<lparr>categories := others (categories db)\<rparr>, delete_category_failed)
                else if filter (\<lambda>c. c_id c = categoryId \<and> c_user_id c = Some uid)
                          (others (categories db)) = []
                then (db\<lparr>categories := others (categories db)\<rparr>,
                      respond 404 (Error ''Custom category not found or could not be deleted from categories table.''))
                else if fault 5 then (db\<lparr>categories := others (categories db)\<rparr>, delete_category_failed)
                else (db\<lparr>infodata := filter (\<lambda>r. \<not> (i_user_id r = uid \<and> i_section r = label)) (infodata db),
                         categories := filter (\<lambda>c. \<not> (c_id c = categoryId \<and> c_user_id c = Some uid))
                                         (others (categories db))\<rparr>,
                      respond 200 (CategoryDeleted label
                        (length (filter (\<lambda>r. i_user_id r = uid \<and> i_section r = label) (infodata db)))))))"
  using assms
  by (simp add: delete_custom_category_def getConnection_def beginTransaction_def rollback_def
      release_def commit_def others_commit_def delete_infodata_of_section_def
      delete_category_def select_category_label_def Let_def
      split: list.splits)


lemma delete_custom_category_succeeds:
  assumes "uid \<noteq> 0" "\<forall>k. \<not> fault k"
    and "select_category_label db categoryId uid = label # rest"
  shows "status (snd (delete_custom_category fault (\<lambda>cs. cs) db (Some uid) categoryId)) = 200"
proof -
  have "filter (\<lambda>c. c_id c = categoryId \<and> c_user_id c = Some uid) (categories db) \<noteq> []"
    using assms(3) by (auto simp: select_category_label_def)
  then show ?thesis
    using assms by (simp add: delete_custom_category_normal_form)
qed

text \<open>
  C1. For every user \<open>uid\<close> and every category \<open>categoryId\<close> of that user with label
  \<open>label\<close>: after a successful \<open>DELETE /items/custom-categories/:id\<close> (status 200,
  whatever other connections did to the categories meanwhile), no ledger row of the user
  has section \<open>label\<close>, the ledger is the old one without exactly the user's rows of
  that section, and \<open>deletedTransactionsCount\<close> is the number of those rows.
\<close>

theorem delete_custom_category_cascade:
  assumes "select_category_label db categoryId uid = label # rest"
    and "delete_custom_category fault others db (Some uid) categoryId = (db', r)"
    and "status r = 200"
  shows "(\<forall>row \<in> set (infodata db'). \<not> (i_user_id row = uid \<and> i_section row = label))
       \<and> body r = CategoryDeleted label
            (length (filter (\<lambda>row. i_user_id row = uid \<and> i_section row = label) (infodata db)))
       \<and> infodata db' =
            filter (\<lambda>row. \<not> (i_user_id row = uid \<and> i_section row = label)) (infodata db)
       \<and> length (infodata db) =
            length (infodata db')
            + length (filter (\<lambda>row. i_user_id row = uid \<and> i_section row = label) (infodata db))"
proof -
  have uid: "uid \<noteq> 0"
  proof
    assume "uid = 0"
    then have "delete_custom_category fault others db (Some uid) categoryId =
        (db, respond 401 (Error ''User ID not found in token payload.''))"
      by (simp add: delete_custom_category_def)
    with assms(2,3) show False by (auto simp: respond_def)
  qed
  have nf: "(db', r) =
      (db\<lparr>infodata := filter (\<lambda>r. \<not> (i_user_id r = uid \<and> i_section r = label)) (infodata db),
          categories := filter (\<lambda>c. \<not> (c_id c = categoryId \<and> c_user_id c = Some uid))
                          (others (categories db))\<rparr>,
       respond 200 (CategoryDeleted label
         (length (filter (\<lambda>r. i_user_id r = uid \<and> i_section r = label) (infodata db)))))"
    using assms(2,3) unfolding delete_custom_category_normal_form [OF uid] assms(1)
    by (auto simp: delete_category_failed_def split: if_splits)
  have len: "length (infodata db) =
      length (filter (\<lambda>row. \<not> (i_user_id row = uid \<and> i_section row = label)) (infodata db))
      + length (filter (\<lambda>row. i_user_id row = uid \<and> i_section row = label) (infodata db))"
    using sum_length_filter_compl [of "\<lambda>row. i_user_id row = uid \<and> i_section row = label" "infodata db"]
    by simp
  from nf len show ?thesis by simp
qed

theorem delete_custom_category_cascade_witness:
  "delete_custom_category no_fault (\<lambda>cs. cs) ledger_db (Some 11) 7 =
     (ledger_db\<lparr>infodata :=
          [entry 101 11 ''Lunch'' 30 (ymd 2024 2 10) ''Food'',
           entry 102 11 ''Balance Addition'' 100 (ymd 2024 2 11) ''Income'',
           entry 104 12 ''Gym fee'' 25 (ymd 2024 2 21) ''Gym''],
        categories := [gym_category 8 12]\<rparr>,
      respond 200 (CategoryDeleted ''Gym'' 2))"
proof -
  obtain db' r where run: "delete_custom_category no_fault (\<lambda>cs. cs) ledger_db (Some 11) 7 = (db', r)"
    by (cases "delete_custom_category no_fault (\<lambda>cs. cs) ledger_db (Some 11) 7")
  have sel: "select_category_label ledger_db 7 11 = [''Gym'']"
    by (simp add: select_category_label_def ledger_db_def gym_category_def)
  have "status (snd (delete_custom_category no_fault (\<lambda>cs. cs) ledger_db (Some 11) 7)) = 200"
    using sel by (intro delete_custom_category_succeeds) (simp_all add: no_fault_def)
  with run have ok: "status r = 200" by simp
  have gym: "filter (\<lambda>row. i_user_id row = 11 \<and> i_section row = ''Gym'') (infodata ledger_db) =
      [entry 103 11 ''Gym fee'' 20 (ymd 2024 2 20) ''Gym'', entry 105 11 ''Gym shoes'' 50 (ymd 2023 12 5) ''Gym'']"
    by (simp add: ledger_db_def entry_def)
  have rest: "filter (\<lambda>row. \<not> (i_user_id row = 11 \<and> i_section row = ''Gym'')) (infodata ledger_db) =
      [entry 101 11 ''Lunch'' 30 (ymd 2024 2 10) ''Food'',
       entry 102 11 ''Balance Addition'' 100 (ymd 2024 2 11) ''Income'',
       entry 104 12 ''Gym fee'' 25 (ymd 2024 2 21) ''Gym'']"
    by (simp add: ledger_db_def entry_def)
  from delete_custom_category_cascade [OF sel run ok]
  have b: "body r = CategoryDeleted ''Gym'' 2"
    and i: "infodata db' =
       [entry 101 11 ''Lunch'' 30 (ymd 2024 2 10) ''Food'',
        entry 102 11 ''Balance Addition'' 100 (ymd 2024 2 11) ''Income'',
        entry 104 12 ''Gym fee'' 25 (ymd 2024 2 21) ''Gym'']"
    unfolding gym rest by simp_all
  have nz: "(11::nat) \<noteq> 0" by simp
  have cats: "filter (\<lambda>c. c_id c = 7 \<and> c_user_id c = Some 11) (categories ledger_db) =
      [gym_category 7 11]"
    by (simp add: ledger_db_def gym_category_def)
  have cats': "filter (\<lambda>c. c_id c = 7 \<longrightarrow> c_user_id c \<noteq> Some 11) (categories ledger_db) =
      [gym_category 8 12]"
    by (simp add: ledger_db_def gym_category_def)
  have others: "users db' = users ledger_db \<and> categories db' = [gym_category 8 12]"
    using run unfolding delete_custom_category_normal_form [OF nz] sel
    by (auto simp: no_fault_def cats cats')
  have "r = respond 200 (CategoryDeleted ''Gym'' 2)"
    using ok b by (cases r) (simp add: respond_def)
  moreover have "db' = ledger_db\<lparr>infodata :=
          [entry 101 11 ''Lunch'' 30 (ymd 2024 2 10) ''Food'',
           entry 102 11 ''Balance Addition'' 100 (ymd 2024 2 11) ''Income'',
           entry 104 12 ''Gym fee'' 25 (ymd 2024 2 21) ''Gym''],
        categories := [gym_category 8 12]\<rparr>"
    using i others by (cases db') (simp add: ledger_db_def)
  ultimately show ?thesis using run by simp
qed





section \<open>Verification: deleting an income entry\<close>

lemma select_balance_delete_infodata [simp]:
  "select_balance (delete_infodata_by_id db transactionId uid) uid' = select_balance db uid'"
  by (simp add: select_balance_def delete_infodata_by_id_def)

lemma delete_income_transaction_normal_form:
  assumes "uid \<noteq> 0"
  shows "delete_income_transaction fault db (Some uid) transactionId =
     (if fault 0 \<or> fault 1 \<or> fault 2 then (db, delete_income_failed)
      else (case select_income_value db transactionId uid of
              [] \<Rightarrow> (db, respond 404 (Error ''Transaction not found or unauthorized.''))
            | selected # rest \<Rightarrow>
                if fault 3 \<or> fault 4 then (db, delete_income_failed)
                else (case select_balance db uid of
                        [] \<Rightarrow>
                          if fault 6 then (db, delete_income_failed)
                          else (delete_infodata_by_id db transactionId uid,
                                respond 200 (Message ''Deposit entry deleted successfully.''))
                      | balance # others \<Rightarrow>
                          if fault 5 then (db, delete_income_failed)
                          else (case sql_number (js_sub (parseFloat_column_or_0 balance)
                                                   (to_double selected)) of
                                  None \<Rightarrow> (db, delete_income_failed)
                                | Some stored \<Rightarrow>
                                    if fault 6 then (db, delete_income_failed)
                                    else (update_balance (delete_infodata_by_id db transactionId uid)
                                            stored uid,
                                          respond 200
                                            (Message ''Deposit entry deleted successfully.''))))))"
  using assms
  by (simp add: delete_income_transaction_def getConnection_def beginTransaction_def rollback_def
      release_def commit_def Let_def split: list.splits option.splits)

lemma delete_income_transaction_failure_frame:
  assumes "status (snd (delete_income_transaction fault db userId transactionId)) \<noteq> 200"
  shows "fst (delete_income_transaction fault db userId transactionId) = db"
proof (cases userId)
  case None
  then show ?thesis by (simp add: delete_income_transaction_def)
next
  case (Some uid)
  show ?thesis
  proof (cases "uid = 0")
    case True
    with Some show ?thesis by (simp add: delete_income_transaction_def)
  next
    case False
    show ?thesis
      using assms unfolding Some delete_income_transaction_normal_form [OF False]
      by (auto simp: respond_def split: if_splits list.splits option.splits)
  qed
qed

lemma delete_income_transaction_uid:
  assumes "status (snd (delete_income_transaction fault db (Some uid) transactionId)) = 200"
  shows "uid \<noteq> 0"
proof
  assume "uid = 0"
  then have "delete_income_transaction fault db (Some uid) transactionId =
      (db, respond 401 (Error ''User ID not found in token payload.''))"
    by (simp add: delete_income_transaction_def)
  with assms show False by (simp add: respond_def)
qed

lemma delete_income_transaction_done:
  assumes "filter (\<lambda>r. i_id r = transactionId \<and> i_user_id r = uid \<and> i_section r = ''Income'')
             (infodata db) = row # dups"
    and "status (snd (delete_income_transaction fault db (Some uid) transactionId)) = 200"
  shows "case select_balance db uid of
           [] \<Rightarrow> fst (delete_income_transaction fault db (Some uid) transactionId) =
                  delete_infodata_by_id db transactionId uid
         | balance # others \<Rightarrow>
             \<exists>stored. js_sub (parseFloat_column_or_0 balance) (to_double (i_value row)) = Finite stored
               \<and> fst (delete_income_transaction fault db (Some uid) transactionId) =
                   update_balance (delete_infodata_by_id db transactionId uid) stored uid"
proof -
  have nz: "uid \<noteq> 0" using assms(2) by (rule delete_income_transaction_uid)
  have sel: "select_income_value db transactionId uid = i_value row # map i_value dups"
    using assms(1) by (simp add: select_income_value_def)
  show ?thesis
    using assms(2) unfolding delete_income_transaction_normal_form [OF nz] sel
    by (auto simp: respond_def delete_income_failed_def sql_number_def
        split: if_splits list.splits option.splits js_number.splits)
qed

lemma users_update_balance:
  "users (update_balance (delete_infodata_by_id db transactionId uid) stored uid) =
     map (\<lambda>u. if u_id u = uid then u\<lparr>u_balance := Some stored\<rparr> else u) (users db)"
  by (simp add: update_balance_def delete_infodata_by_id_def)

text \<open>
  C10, amended. For every \<open>DELETE /profile/income-transactions/delete/:id\<close>: (1) when
  it succeeds on an \<open>Income\<close> row of the caller with that id, the ledger afterwards is
  the old one without the caller's rows of that id, and every row of the caller in
  \<open>users\<close> stores the difference of doubles of the old balance (\<open>NULL\<close> read as 0) and
  the value of the deleted row, each read as a double, which is finite; nothing else
  changes; (2) when moreover the old balance, the value and their difference are whole
  numbers of magnitude at most \<open>2 ^ 53\<close>, the stored balance is exactly the old balance
  minus the value; (3) when no row has that id, that owner and the section \<open>Income\<close>,
  the response is 404 and the store is unchanged; (4) whenever the response is not 200
  the store is unchanged, so the deletion and the balance update happen together or not
  at all; (5) without store failures the deletion of such a row succeeds when the
  difference of doubles is finite for every row of the caller in \<open>users\<close>.
\<close>

theorem delete_income_transaction_effect:
  "(filter (\<lambda>r. i_id r = transactionId \<and> i_user_id r = uid \<and> i_section r = ''Income'')
        (infodata db) = row # dups
      \<and> status (snd (delete_income_transaction fault db (Some uid) transactionId)) = 200 \<longrightarrow>
      infodata (fst (delete_income_transaction fault db (Some uid) transactionId)) =
        filter (\<lambda>r. \<not> (i_id r = transactionId \<and> i_user_id r = uid)) (infodata db)
      \<and> (case filter (\<lambda>u. u_id u = uid) (users db) of
           [] \<Rightarrow> users (fst (delete_income_transaction fault db (Some uid) transactionId)) = users db
         | user # others \<Rightarrow>
             \<exists>stored.
               js_sub (parseFloat_column_or_0 (u_balance user)) (to_double (i_value row)) =
                 Finite stored
               \<and> users (fst (delete_income_transaction fault db (Some uid) transactionId)) =
                   map (\<lambda>u. if u_id u = uid then u\<lparr>u_balance := Some stored\<rparr> else u) (users db))
      \<and> categories (fst (delete_income_transaction fault db (Some uid) transactionId)) =
        categories db)
   \<and> (filter (\<lambda>r. i_id r = transactionId \<and> i_user_id r = uid \<and> i_section r = ''Income'')
        (infodata db) = row # dups
      \<and> status (snd (delete_income_transaction fault db (Some uid) transactionId)) = 200
      \<and> filter (\<lambda>u. u_id u = uid) (users db) = user # others
      \<and> parseFloat_or_0 (u_balance user) = of_int b \<and> i_value row = of_int v
      \<and> \<bar>b\<bar> \<le> 2 ^ 53 \<and> \<bar>v\<bar> \<le> 2 ^ 53 \<and> \<bar>b - v\<bar> \<le> 2 ^ 53 \<longrightarrow>
      users (fst (delete_income_transaction fault db (Some uid) transactionId)) =
        map (\<lambda>u. if u_id u = uid
                  then u\<lparr>u_balance := Some (parseFloat_or_0 (u_balance user) - i_value row)\<rparr>
                  else u) (users db))
   \<and> (uid \<noteq> 0 \<and> \<not> fault 0 \<and> \<not> fault 1 \<and> \<not> fault 2
      \<and> \<not> (\<exists>r \<in> set (infodata db).
              i_id r = transactionId \<and> i_user_id r = uid \<and> i_section r = ''Income'') \<longrightarrow>
      delete_income_transaction fault db (Some uid) transactionId =
        (db, respond 404 (Error ''Transaction not found or unauthorized.'')))
   \<and> (status (snd (delete_income_transaction fault db userId transactionId)) \<noteq> 200 \<longrightarrow>
      fst (delete_income_transaction fault db userId transactionId) = db)
   \<and> (uid \<noteq> 0 \<and> (\<forall>k. \<not> fault k)
      \<and> filter (\<lambda>r. i_id r = transactionId \<and> i_user_id r = uid \<and> i_section r = ''Income'')
          (infodata db) = row # dups
      \<and> (\<forall>user \<in> set (users db). u_id user = uid \<longrightarrow>
            (\<exists>x. js_sub (parseFloat_column_or_0 (u_balance user)) (to_double (i_value row)) =
                   Finite x)) \<longrightarrow>
      status (snd (delete_income_transaction fault db (Some uid) transactionId)) = 200)"
proof (intro conjI impI)
  assume a: "filter (\<lambda>r. i_id r = transactionId \<and> i_user_id r = uid \<and> i_section r = ''Income'')
        (infodata db) = row # dups
      \<and> status (snd (delete_income_transaction fault db (Some uid) transactionId)) = 200"
  note ran = delete_income_transaction_done [OF conjunct1 [OF a] conjunct2 [OF a]]
  show "infodata (fst (delete_income_transaction fault db (Some uid) transactionId)) =
        filter (\<lambda>r. \<not> (i_id r = transactionId \<and> i_user_id r = uid)) (infodata db)"
    using ran
    by (auto simp: delete_infodata_by_id_def update_balance_def split: list.splits)
  show "case filter (\<lambda>u. u_id u = uid) (users db) of
           [] \<Rightarrow> users (fst (delete_income_transaction fault db (Some uid) transactionId)) = users db
         | user # others \<Rightarrow>
             \<exists>stored.
               js_sub (parseFloat_column_or_0 (u_balance user)) (to_double (i_value row)) =
                 Finite stored
               \<and> users (fst (delete_income_transaction fault db (Some uid) transactionId)) =
                   map (\<lambda>u. if u_id u = uid then u\<lparr>u_balance := Some stored\<rparr> else u) (users db)"
  proof (cases "filter (\<lambda>u. u_id u = uid) (users db)")
    case Nil
    then have "select_balance db uid = []" by (simp add: select_balance_def)
    with ran have "fst (delete_income_transaction fault db (Some uid) transactionId) =
        delete_infodata_by_id db transactionId uid"
      by simp
    then show ?thesis by (simp add: Nil delete_infodata_by_id_def)
  next
    case (Cons user others)
    then have "select_balance db uid = u_balance user # map u_balance others"
      by (simp add: select_balance_def)
    with ran obtain stored where
      "js_sub (parseFloat_column_or_0 (u_balance user)) (to_double (i_value row)) = Finite stored"
      "fst (delete_income_transaction fault db (Some uid) transactionId) =
         update_balance (delete_infodata_by_id db transactionId uid) stored uid"
      by auto
    then show ?thesis by (auto simp: Cons users_update_balance)
  qed
  show "categories (fst (delete_income_transaction fault db (Some uid) transactionId)) =
        categories db"
    using ran
    by (auto simp: delete_infodata_by_id_def update_balance_def split: list.splits)
next
  assume a: "filter (\<lambda>r. i_id r = transactionId \<and> i_user_id r = uid \<and> i_section r = ''Income'')
        (infodata db) = row # dups
      \<and> status (snd (delete_income_transaction fault db (Some uid) transactionId)) = 200
      \<and> filter (\<lambda>u. u_id u = uid) (users db) = user # others
      \<and> parseFloat_or_0 (u_balance user) = of_int b \<and> i_value row = of_int v
      \<and> \<bar>b\<bar> \<le> 2 ^ 53 \<and> \<bar>v\<bar> \<le> 2 ^ 53 \<and> \<bar>b - v\<bar> \<le> 2 ^ 53"
  then have f: "filter (\<lambda>r. i_id r = transactionId \<and> i_user_id r = uid \<and> i_section r = ''Income'')
        (infodata db) = row # dups"
    and ok: "status (snd (delete_income_transaction fault db (Some uid) transactionId)) = 200"
    and usr: "filter (\<lambda>u. u_id u = uid) (users db) = user # others"
    and bal: "parseFloat_or_0 (u_balance user) = of_int b" and val: "i_value row = of_int v"
    and bounds: "\<bar>b\<bar> \<le> 2 ^ 53" "\<bar>v\<bar> \<le> 2 ^ 53" "\<bar>b - v\<bar> \<le> 2 ^ 53"
    by blast+
  note ran = delete_income_transaction_done [OF f ok]
  have sb: "select_balance db uid = u_balance user # map u_balance others"
    using usr by (simp add: select_balance_def)
  have "js_sub (parseFloat_column_or_0 (u_balance user)) (to_double (i_value row)) =
      Finite (of_int (b - v))"
    unfolding parseFloat_column_or_0_of_int [OF bal bounds(1)] val to_double_of_int [OF bounds(2)]
    by (rule js_sub_of_int [OF bounds(3)])
  with ran have "fst (delete_income_transaction fault db (Some uid) transactionId) =
      update_balance (delete_infodata_by_id db transactionId uid) (of_int (b - v)) uid"
    unfolding sb by simp
  then show "users (fst (delete_income_transaction fault db (Some uid) transactionId)) =
        map (\<lambda>u. if u_id u = uid
                  then u\<lparr>u_balance := Some (parseFloat_or_0 (u_balance user) - i_value row)\<rparr>
                  else u) (users db)"
    by (simp add: users_update_balance bal val)
next
  assume a: "uid \<noteq> 0 \<and> \<not> fault 0 \<and> \<not> fault 1 \<and> \<not> fault 2
      \<and> \<not> (\<exists>r \<in> set (infodata db).
              i_id r = transactionId \<and> i_user_id r = uid \<and> i_section r = ''Income'')"
  then have nz: "uid \<noteq> 0" by simp
  from a have sel: "select_income_value db transactionId uid = []"
    by (auto simp: select_income_value_def filter_empty_conv)
  from a show "delete_income_transaction fault db (Some uid) transactionId =
        (db, respond 404 (Error ''Transaction not found or unauthorized.''))"
    unfolding delete_income_transaction_normal_form [OF nz] sel by simp
next
  assume "status (snd (delete_income_transaction fault db userId transactionId)) \<noteq> 200"
  then show "fst (delete_income_transaction fault db userId transactionId) = db"
    by (rule delete_income_transaction_failure_frame)
next
  assume a: "uid \<noteq> 0 \<and> (\<forall>k. \<not> fault k)
      \<and> filter (\<lambda>r. i_id r = transactionId \<and> i_user_id r = uid \<and> i_section r = ''Income'')
          (infodata db) = row # dups
      \<and> (\<forall>user \<in> set (users db). u_id user = uid \<longrightarrow>
            (\<exists>x. js_sub (parseFloat_column_or_0 (u_balance user)) (to_double (i_value row)) =
                   Finite x))"
  then have nz: "uid \<noteq> 0" and nf: "\<And>k. \<not> fault k" by simp_all
  from a have sel: "select_income_value db transactionId uid = i_value row # map i_value dups"
    by (simp add: select_income_value_def)
  have fin: "\<exists>x. js_sub (parseFloat_column_or_0 balance) (to_double (i_value row)) = Finite x"
    if "select_balance db uid = balance # rest" for balance rest
  proof -
    from that have "balance \<in> set (select_balance db uid)" by simp
    then obtain user where "user \<in> set (users db)" "u_id user = uid" "balance = u_balance user"
      by (auto simp: select_balance_def)
    with a show ?thesis by blast
  qed
  show "status (snd (delete_income_transaction fault db (Some uid) transactionId)) = 200"
  proof (cases "select_balance db uid")
    case Nil
    then show ?thesis
      unfolding delete_income_transaction_normal_form [OF nz] sel by (simp add: nf)
  next
    case (Cons balance rest)
    from fin [OF Cons] obtain x where
      "js_sub (parseFloat_column_or_0 balance) (to_double (i_value row)) = Finite x"
      by blast
    then show ?thesis
      unfolding delete_income_transaction_normal_form [OF nz] sel Cons
      by (simp add: nf sql_number_def)
  qed
qed

lemma hundred_minus_hundred:
  "js_sub (parseFloat_column_or_0 (Some 100)) (to_double 100) = Finite 0"
  by code_simp

lemma nothing_minus_forty:
  "js_sub (parseFloat_column_or_0 None) (to_double 40) = Finite (- 40)"
  by code_simp

theorem delete_income_transaction_effect_witness:
  "delete_income_transaction no_fault ledger_db (Some 11) 102 =
     (ledger_db\<lparr>users := [alice\<lparr>u_balance := Some 0\<rparr>, bob],
                infodata :=
                  [entry 101 11 ''Lunch'' 30 (ymd 2024 2 10) ''Food'',
                   entry 103 11 ''Gym fee'' 20 (ymd 2024 2 20) ''Gym'',
                   entry 104 12 ''Gym fee'' 25 (ymd 2024 2 21) ''Gym'',
                   entry 105 11 ''Gym shoes'' 50 (ymd 2023 12 5) ''Gym'']\<rparr>,
      respond 200 (Message ''Deposit entry deleted successfully.''))
   \<and> delete_income_transaction no_fault ledger_db (Some 11) 103 =
     (ledger_db, respond 404 (Error ''Transaction not found or unauthorized.''))
   \<and> fst (delete_income_transaction (\<lambda>k. k = 6) ledger_db (Some 11) 102) = ledger_db
   \<and> users (fst (delete_income_transaction no_fault deposit_db (Some 12) 106)) =
       [alice, bob\<lparr>u_balance := Some (- 40)\<rparr>]"
proof (intro conjI)
  let ?run = "delete_income_transaction no_fault ledger_db (Some 11) 102"
  let ?row = "entry 102 11 ''Balance Addition'' 100 (ymd 2024 2 11) ''Income''"
  note eff = delete_income_transaction_effect [where transactionId = 102 and uid = 11
      and db = ledger_db and row = ?row and dups = "[]" and fault = no_fault
      and userId = "Some 11" and user = alice and others = "[]" and b = 100 and v = 100]
  have inc: "filter (\<lambda>r. i_id r = 102 \<and> i_user_id r = 11 \<and> i_section r = ''Income'')
        (infodata ledger_db) = [?row]"
    by (simp add: ledger_db_def entry_def)
  have fin: "\<forall>user \<in> set (users ledger_db). u_id user = 11 \<longrightarrow>
      (\<exists>x. js_sub (parseFloat_column_or_0 (u_balance user)) (to_double (i_value ?row)) = Finite x)"
    using hundred_minus_hundred by (simp add: ledger_db_def alice_def bob_def entry_def)
  have ok: "status (snd ?run) = 200"
    using eff inc fin by (simp add: no_fault_def)
  have usr: "filter (\<lambda>u. u_id u = 11) (users ledger_db) = [alice]"
    by (simp add: ledger_db_def alice_def bob_def)
  have whole: "parseFloat_or_0 (u_balance alice) = of_int 100" "i_value ?row = of_int 100"
    "\<bar>100 :: int\<bar> \<le> 2 ^ 53" "\<bar>100 - 100 :: int\<bar> \<le> 2 ^ 53"
    by (simp_all add: parseFloat_or_0_def alice_def entry_def)
  have rest: "filter (\<lambda>r. \<not> (i_id r = 102 \<and> i_user_id r = 11)) (infodata ledger_db) =
      [entry 101 11 ''Lunch'' 30 (ymd 2024 2 10) ''Food'',
       entry 103 11 ''Gym fee'' 20 (ymd 2024 2 20) ''Gym'',
       entry 104 12 ''Gym fee'' 25 (ymd 2024 2 21) ''Gym'',
       entry 105 11 ''Gym shoes'' 50 (ymd 2023 12 5) ''Gym'']"
    by (simp add: ledger_db_def entry_def)
  from eff inc ok have
    "infodata (fst ?run) = filter (\<lambda>r. \<not> (i_id r = 102 \<and> i_user_id r = 11)) (infodata ledger_db)"
    and c: "categories (fst ?run) = categories ledger_db"
    by blast+
  then have i: "infodata (fst ?run) =
      [entry 101 11 ''Lunch'' 30 (ymd 2024 2 10) ''Food'',
       entry 103 11 ''Gym fee'' 20 (ymd 2024 2 20) ''Gym'',
       entry 104 12 ''Gym fee'' 25 (ymd 2024 2 21) ''Gym'',
       entry 105 11 ''Gym shoes'' 50 (ymd 2023 12 5) ''Gym'']"
    unfolding rest by simp
  from eff inc ok usr whole have "users (fst ?run) =
        map (\<lambda>u. if u_id u = 11
                  then u\<lparr>u_balance := Some (parseFloat_or_0 (u_balance alice) - i_value ?row)\<rparr>
                  else u) (users ledger_db)"
    by blast
  then have u: "users (fst ?run) = [alice\<lparr>u_balance := Some 0\<rparr>, bob]"
    by (simp add: ledger_db_def alice_def bob_def entry_def parseFloat_or_0_def)
  have nz: "(11::nat) \<noteq> 0" by simp
  have "snd ?run = respond 200 (Message ''Deposit entry deleted successfully.'')"
    using ok unfolding delete_income_transaction_normal_form [OF nz]
    by (auto simp: respond_def delete_income_failed_def split: if_splits list.splits option.splits)
  moreover have "fst ?run = ledger_db\<lparr>users := [alice\<lparr>u_balance := Some 0\<rparr>, bob],
                infodata :=
                  [entry 101 11 ''Lunch'' 30 (ymd 2024 2 10) ''Food'',
                   entry 103 11 ''Gym fee'' 20 (ymd 2024 2 20) ''Gym'',
                   entry 104 12 ''Gym fee'' 25 (ymd 2024 2 21) ''Gym'',
                   entry 105 11 ''Gym shoes'' 50 (ymd 2023 12 5) ''Gym'']\<rparr>"
    using i u c by (cases "fst ?run") (simp add: ledger_db_def)
  ultimately show "?run =
     (ledger_db\<lparr>users := [alice\<lparr>u_balance := Some 0\<rparr>, bob],
                infodata :=
                  [entry 101 11 ''Lunch'' 30 (ymd 2024 2 10) ''Food'',
                   entry 103 11 ''Gym fee'' 20 (ymd 2024 2 20) ''Gym'',
                   entry 104 12 ''Gym fee'' 25 (ymd 2024 2 21) ''Gym'',
                   entry 105 11 ''Gym shoes'' 50 (ymd 2023 12 5) ''Gym'']\<rparr>,
      respond 200 (Message ''Deposit entry deleted successfully.''))"
    by (cases ?run) simp
next
  have "\<not> (\<exists>r \<in> set (infodata ledger_db). i_id r = 103 \<and> i_user_id r = 11 \<and> i_section r = ''Income'')"
    by (simp add: ledger_db_def entry_def)
  then show "delete_income_transaction no_fault ledger_db (Some 11) 103 =
     (ledger_db, respond 404 (Error ''Transaction not found or unauthorized.''))"
    using delete_income_transaction_effect [where transactionId = 103 and uid = 11
        and db = ledger_db and fault = no_fault]
    by (simp add: no_fault_def)
next
  let ?run = "delete_income_transaction (\<lambda>k. k = 6) ledger_db (Some 11) 102"
  have nz: "(11::nat) \<noteq> 0" by simp
  have sel: "select_income_value ledger_db 102 11 = [100]"
    by (simp add: select_income_value_def ledger_db_def entry_def)
  have sb: "select_balance ledger_db 11 = [Some 100]"
    by (simp add: select_balance_def ledger_db_def alice_def bob_def)
  have "snd ?run = delete_income_failed"
    unfolding delete_income_transaction_normal_form [OF nz] sel sb
    by (simp add: hundred_minus_hundred sql_number_def)
  then have "status (snd ?run) \<noteq> 200"
    by (simp add: delete_income_failed_def respond_def)
  then show "fst ?run = ledger_db"
    using delete_income_transaction_effect [where transactionId = 102 and uid = 11
        and db = ledger_db and fault = "\<lambda>k. k = 6" and userId = "Some 11"]
    by blast
next
  let ?run = "delete_income_transaction no_fault deposit_db (Some 12) 106"
  let ?row = "entry 106 12 ''Balance Addition'' 40 (ymd 2024 2 22) ''Income''"
  note eff = delete_income_transaction_effect [where transactionId = 106 and uid = 12
      and db = deposit_db and row = ?row and dups = "[]" and fault = no_fault
      and userId = "Some 12" and user = bob and others = "[]" and b = 0 and v = 40]
  have inc: "filter (\<lambda>r. i_id r = 106 \<and> i_user_id r = 12 \<and> i_section r = ''Income'')
        (infodata deposit_db) = [?row]"
    by (simp add: deposit_db_def entry_def)
  have fin: "\<forall>user \<in> set (users deposit_db). u_id user = 12 \<longrightarrow>
      (\<exists>x. js_sub (parseFloat_column_or_0 (u_balance user)) (to_double (i_value ?row)) = Finite x)"
    using nothing_minus_forty by (simp add: deposit_db_def alice_def bob_def entry_def)
  have ok: "status (snd ?run) = 200"
    using eff inc fin by (simp add: no_fault_def)
  have usr: "filter (\<lambda>u. u_id u = 12) (users deposit_db) = [bob]"
    by (simp add: deposit_db_def alice_def bob_def)
  have whole: "parseFloat_or_0 (u_balance bob) = of_int 0" "i_value ?row = of_int 40"
    "\<bar>0 :: int\<bar> \<le> 2 ^ 53" "\<bar>40 :: int\<bar> \<le> 2 ^ 53" "\<bar>0 - 40 :: int\<bar> \<le> 2 ^ 53"
    by (simp_all add: parseFloat_or_0_def bob_def entry_def)
  from eff inc ok usr whole have "users (fst ?run) =
        map (\<lambda>u. if u_id u = 12
                  then u\<lparr>u_balance := Some (parseFloat_or_0 (u_balance bob) - i_value ?row)\<rparr>
                  else u) (users deposit_db)"
    by blast
  then show "users (fst ?run) = [alice, bob\<lparr>u_balance := Some (- 40)\<rparr>]"
    by (simp add: deposit_db_def alice_def bob_def entry_def parseFloat_or_0_def)
qed

lemma large_balance_run:
  "status (snd (delete_income_transaction no_fault (carol_db (Some 10000000000000000) 1)
       (Some 13) 110)) = 200
   \<and> select_balance (fst (delete_income_transaction no_fault
       (carol_db (Some 10000000000000000) 1) (Some 13) 110)) 13 = [Some 10000000000000000]"
  by code_simp

lemma tenths_run:
  "status (snd (delete_income_transaction no_fault (carol_db (Some (3 / 10)) (1 / 10))
       (Some 13) 110)) = 200
   \<and> select_balance (fst (delete_income_transaction no_fault
       (carol_db (Some (3 / 10)) (1 / 10)) (Some 13) 110)) 13 =
     [Some (7205759403792793 / 36028797018963968)]"
  by code_simp

text \<open>
  C10 as stated fails: the balance is not decreased by exactly the row's value. With a
  stored balance of \<open>10 ^ 16\<close> the deletion of a deposit of 1 succeeds and leaves the
  balance at \<open>10 ^ 16\<close>, since \<open>10 ^ 16 - 1\<close> is not a double and the subtraction rounds
  it back; with a balance of 0.3 and a deposit of 0.1 the stored balance is
  0.19999999999999998 (the double \<open>7205759403792793 / 2 ^ 55\<close>), not 0.2.
\<close>

theorem delete_income_transaction_effect_counterexample:
  "status (snd (delete_income_transaction no_fault (carol_db (Some 10000000000000000) 1)
       (Some 13) 110)) = 200
   \<and> select_balance (fst (delete_income_transaction no_fault
       (carol_db (Some 10000000000000000) 1) (Some 13) 110)) 13
     \<noteq> [Some (parseFloat_or_0 (Some 10000000000000000) - 1)]
   \<and> status (snd (delete_income_transaction no_fault (carol_db (Some (3 / 10)) (1 / 10))
       (Some 13) 110)) = 200
   \<and> select_balance (fst (delete_income_transaction no_fault
       (carol_db (Some (3 / 10)) (1 / 10)) (Some 13) 110)) 13
     \<noteq> [Some (parseFloat_or_0 (Some (3 / 10)) - 1 / 10)]"
  using large_balance_run tenths_run by (simp add: parseFloat_or_0_def)

section \<open>Verification: adding to the balance\<close>



lemma js_le_0_Finite: "to_double a = Finite x \<Longrightarrow> js_le_0 (to_double a) = (x \<le> 0)"
  by simp



















section \<open>Verification: the monthly and daily summaries\<close>











































lemma leap_february:
  "calendar_days (ymd 2024 2 28) (ymd 2024 3 1) = [ymd 2024 2 28, ymd 2024 2 29, ymd 2024 3 1]"
  by code_simp








end
